theory Spec2Isabelle
  imports Main
begin

section \<open>Python values, exceptions and outcomes\<close>

text \<open>
  A settings document parsed by \<^verbatim>\<open>json.load\<close> or \<^verbatim>\<open>yaml.safe_load\<close> is an arbitrary
  Python value, not necessarily a dictionary of strings. \<open>POther t r\<close> stands for any value
  of another type (a float, a date, a set), with its truth value \<open>t\<close>.
\<close>

datatype pyval =
    PNone
  | PBool bool
  | PInt int
  | PStr string
  | PList "pyval list"
  | PDict "(pyval \<times> pyval) list"
  | POther bool string

text \<open>Python's truth value, as used by \<^verbatim>\<open>x or y\<close> and \<^verbatim>\<open>if x\<close>.\<close>

definition truthy :: "pyval \<Rightarrow> bool" where
  "truthy v =
     (case v of
        PNone \<Rightarrow> False
      | PBool b \<Rightarrow> b
      | PInt i \<Rightarrow> i \<noteq> 0
      | PStr s \<Rightarrow> s \<noteq> []
      | PList xs \<Rightarrow> xs \<noteq> []
      | PDict kvs \<Rightarrow> kvs \<noteq> []
      | POther t r \<Rightarrow> t)"

text \<open>
  The optional string parameters of the source (\<^verbatim>\<open>env_name=None\<close> and so on): \<open>None\<close> and
  the empty string are both false for \<^verbatim>\<open>or\<close> and \<^verbatim>\<open>if\<close>.
\<close>

definition opt_truthy :: "string option \<Rightarrow> bool" where
  "opt_truthy a = (case a of None \<Rightarrow> False | Some s \<Rightarrow> s \<noteq> [])"

definition opt_val :: "string option \<Rightarrow> string" where
  "opt_val a = (case a of None \<Rightarrow> [] | Some s \<Rightarrow> s)"

text \<open>
  The exceptions the modelled calls raise. All of them are subclasses of Python's
  \<^verbatim>\<open>Exception\<close>; \<^verbatim>\<open>sys.exit\<close> (\<^verbatim>\<open>SystemExit\<close>, which \<^verbatim>\<open>except Exception\<close> does not catch) is
  the outcome \<open>Exited\<close>.
\<close>

datatype exn =
    FileNotFoundError
  | PermissionError
  | IsADirectoryError
  | NotADirectoryError
  | FileExistsError
  | OSError
  | AttributeError
  | TypeError
  | EOFError
  | CalledProcessError int
  | LibraryError string

text \<open>
  A stand-in for \<^verbatim>\<open>str(e)\<close>: the class of the exception, or the library's own text. The
  text that Python gives (an error number, a file name) is not modelled, so the argument of
  an error message below is not the program's wording.
\<close>

definition exn_text :: "exn \<Rightarrow> string" where
  "exn_text e =
     (case e of
        FileNotFoundError \<Rightarrow> ''FileNotFoundError''
      | PermissionError \<Rightarrow> ''PermissionError''
      | IsADirectoryError \<Rightarrow> ''IsADirectoryError''
      | NotADirectoryError \<Rightarrow> ''NotADirectoryError''
      | FileExistsError \<Rightarrow> ''FileExistsError''
      | OSError \<Rightarrow> ''OSError''
      | AttributeError \<Rightarrow> ''AttributeError''
      | TypeError \<Rightarrow> ''TypeError''
      | EOFError \<Rightarrow> ''EOFError''
      | CalledProcessError n \<Rightarrow> ''CalledProcessError''
      | LibraryError s \<Rightarrow> s)"

text \<open>
  How a call ends: it returns a value, raises, ends the process with an exit code
  (\<^verbatim>\<open>sys.exit\<close>), or the process image is replaced (\<^verbatim>\<open>os.execv\<close> succeeded) by the given
  program and argument vector.
\<close>

datatype 'a outcome =
    Returned 'a
  | Raised exn
  | Exited int
  | Replaced string "string list"

section \<open>The world: file system, environment, terminal\<close>

text \<open>
  A file carries its read and write permission and its content; a directory carries its
  listing. The file system is keyed by absolute paths.
\<close>

datatype node = File bool bool string | Dir "string list"

datatype level = INFO | ERROR

text \<open>
  A message is its template as written in the source (without the leading pictograph) and
  the values interpolated into it.
\<close>

datatype msg = Msg string "pyval list"

datatype parser = Json | Yaml

text \<open>
  What the program does to the outside, in order: console output, prompts, log records,
  parse calls, calls of \<^verbatim>\<open>subprocess.run\<close> (with the argument vector as passed) and
  calls of \<^verbatim>\<open>os.execv\<close> (with the process environment the new image would inherit).
\<close>

datatype event =
    Print msg
  | Prompt msg
  | Log level msg
  | Parse parser
  | Run "pyval list"
  | Execv string "string list" "string \<Rightarrow> string option"

record world =
  fs :: "string \<Rightarrow> node option"
  environ :: "string \<Rightarrow> string option"
  cwd :: string
  stdin :: "string list"
  trace :: "event list"

datatype proc_result = Completed int "string \<Rightarrow> node option" | LaunchFailed exn

text \<open>
  Everything the source takes from the interpreter, the operating system and the libraries
  it imports: \<^verbatim>\<open>os.name\<close>, \<^verbatim>\<open>sys.executable\<close>, \<^verbatim>\<open>sys.argv\<close>, \<^verbatim>\<open>sys.version_info\<close>,
  \<^verbatim>\<open>os.path.expanduser("~")\<close>, \<^verbatim>\<open>os.pathsep\<close>, \<^verbatim>\<open>os.path.join\<close>, \<^verbatim>\<open>os.path.abspath\<close> (relative to
  a working directory), \<^verbatim>\<open>os.path.dirname\<close>, \<^verbatim>\<open>shutil.which\<close>, whether the operating
  system refuses to create a directory, the parsers and the emitter, the behaviour of a child process (its exit status and what it leaves on the
  file system, or the failure to launch it) and whether \<^verbatim>\<open>os.execv\<close> fails.
\<close>

record host =
  os_name :: string
  executable :: string
  argv :: "string list"
  version_major :: nat
  version_minor :: nat
  home :: string
  pathsep :: string
  path_join :: "string \<Rightarrow> string \<Rightarrow> string"
  abspath :: "string \<Rightarrow> string \<Rightarrow> string"
  dirname :: "string \<Rightarrow> string"
  which :: "string \<Rightarrow> string option"
  makedirs_error :: "string \<Rightarrow> world \<Rightarrow> exn option"
  json_load :: "string \<Rightarrow> exn + pyval"
  yaml_safe_load :: "string \<Rightarrow> exn + pyval"
  yaml_dump :: "pyval \<Rightarrow> exn + string"
  run :: "string list \<Rightarrow> world \<Rightarrow> proc_result"
  execv :: "string \<Rightarrow> string list \<Rightarrow> world \<Rightarrow> exn option"

section \<open>Sequencing\<close>

type_synonym 'a prog = "world \<Rightarrow> 'a outcome \<times> world"

definition ret :: "'a \<Rightarrow> 'a prog" where
  "ret x = (\<lambda>w. (Returned x, w))"

definition raise :: "exn \<Rightarrow> 'a prog" where
  "raise e = (\<lambda>w. (Raised e, w))"

definition sys_exit :: "int \<Rightarrow> 'a prog" where
  "sys_exit n = (\<lambda>w. (Exited n, w))"

definition bind :: "'a prog \<Rightarrow> ('a \<Rightarrow> 'b prog) \<Rightarrow> 'b prog" where
  "bind m k =
     (\<lambda>w. case m w of
             (Returned x, w') \<Rightarrow> k x w'
           | (Raised e, w') \<Rightarrow> (Raised e, w')
           | (Exited n, w') \<Rightarrow> (Exited n, w')
           | (Replaced p a, w') \<Rightarrow> (Replaced p a, w'))"

text \<open>\<^verbatim>\<open>try: m except Exception as e: h(e)\<close>\<close>

definition try_except :: "'a prog \<Rightarrow> (exn \<Rightarrow> 'a prog) \<Rightarrow> 'a prog" where
  "try_except m h = (\<lambda>w. case m w of (Raised e, w') \<Rightarrow> h e w' | r \<Rightarrow> r)"

text \<open>\<^verbatim>\<open>try: m except subprocess.CalledProcessError as e: h(e)\<close>\<close>

definition try_except_cpe :: "'a prog \<Rightarrow> (exn \<Rightarrow> 'a prog) \<Rightarrow> 'a prog" where
  "try_except_cpe m h =
     (\<lambda>w. case m w of
             (Raised (CalledProcessError n), w') \<Rightarrow> h (CalledProcessError n) w'
           | r \<Rightarrow> r)"

primrec for_each :: "'a list \<Rightarrow> ('a \<Rightarrow> unit prog) \<Rightarrow> unit prog" where
  "for_each [] f = ret ()"
| "for_each (x # xs) f = bind (f x) (\<lambda>_. for_each xs f)"

section \<open>Primitive operations\<close>

definition emit :: "event \<Rightarrow> unit prog" where
  "emit e = (\<lambda>w. (Returned (), w\<lparr>trace := trace w @ [e]\<rparr>))"

definition print :: "msg \<Rightarrow> unit prog" where
  "print m = emit (Print m)"

definition logging :: "level \<Rightarrow> msg \<Rightarrow> unit prog" where
  "logging l m = emit (Log l m)"

text \<open>\<^verbatim>\<open>input(prompt)\<close>: shows the prompt and reads one line; at end of input it raises.\<close>

definition input :: "msg \<Rightarrow> string prog" where
  "input m =
     (\<lambda>w. case stdin w of
             [] \<Rightarrow> (Raised EOFError, w\<lparr>trace := trace w @ [Prompt m]\<rparr>)
           | a # rest \<Rightarrow> (Returned a, w\<lparr>stdin := rest, trace := trace w @ [Prompt m]\<rparr>))"

definition getcwd :: "string prog" where
  "getcwd = (\<lambda>w. (Returned (cwd w), w))"

definition os_abspath :: "host \<Rightarrow> string \<Rightarrow> string prog" where
  "os_abspath h p = (\<lambda>w. (Returned (abspath h (cwd w) p), w))"

definition environ_get :: "string \<Rightarrow> string option prog" where
  "environ_get k = (\<lambda>w. (Returned (environ w k), w))"

definition environ_set :: "string \<Rightarrow> string \<Rightarrow> unit prog" where
  "environ_set k v = (\<lambda>w. (Returned (), w\<lparr>environ := (environ w)(k \<mapsto> v)\<rparr>))"

definition path_exists :: "host \<Rightarrow> string \<Rightarrow> bool prog" where
  "path_exists h p = (\<lambda>w. (Returned (fs w (abspath h (cwd w) p) \<noteq> None), w))"

definition listdir :: "host \<Rightarrow> string \<Rightarrow> string list prog" where
  "listdir h p =
     (\<lambda>w. case fs w (abspath h (cwd w) p) of
             None \<Rightarrow> (Raised FileNotFoundError, w)
           | Some (File r wr c) \<Rightarrow> (Raised NotADirectoryError, w)
           | Some (Dir es) \<Rightarrow> (Returned es, w))"

text \<open>
  \<^verbatim>\<open>os.makedirs(p, exist_ok=True)\<close>. Whether the operating system refuses to create a
  missing directory (a regular file on the way, a missing permission) is the host's. The
  directories above \<open>p\<close> that are created as well, and the new entry in the listing of the
  parent, are not recorded: the source lists a directory only before it creates one.
\<close>

definition makedirs :: "host \<Rightarrow> string \<Rightarrow> unit prog" where
  "makedirs h p =
     (\<lambda>w. let ap = abspath h (cwd w) p in
           case fs w ap of
             None \<Rightarrow>
               (case makedirs_error h ap w of
                  Some e \<Rightarrow> (Raised e, w)
                | None \<Rightarrow> (Returned (), w\<lparr>fs := (fs w)(ap \<mapsto> Dir [])\<rparr>))
           | Some (File r wr c) \<Rightarrow> (Raised FileExistsError, w)
           | Some (Dir es) \<Rightarrow> (Returned (), w))"

definition chdir :: "host \<Rightarrow> string \<Rightarrow> unit prog" where
  "chdir h p =
     (\<lambda>w. let ap = abspath h (cwd w) p in
           case fs w ap of
             None \<Rightarrow> (Raised FileNotFoundError, w)
           | Some (File r wr c) \<Rightarrow> (Raised NotADirectoryError, w)
           | Some (Dir es) \<Rightarrow> (Returned (), w\<lparr>cwd := ap\<rparr>))"

text \<open>\<^verbatim>\<open>open(p, "r")\<close>, giving the content that a later read of the handle returns.\<close>

definition open_read :: "host \<Rightarrow> string \<Rightarrow> string prog" where
  "open_read h p =
     (\<lambda>w. case fs w (abspath h (cwd w) p) of
             None \<Rightarrow> (Raised FileNotFoundError, w)
           | Some (Dir es) \<Rightarrow> (Raised IsADirectoryError, w)
           | Some (File r wr c) \<Rightarrow> if r then (Returned c, w) else (Raised PermissionError, w))"

text \<open>
  \<^verbatim>\<open>open(p, "w")\<close>: an existing file is truncated; a new one is created when its directory
  exists.
\<close>

definition open_write :: "host \<Rightarrow> string \<Rightarrow> unit prog" where
  "open_write h p =
     (\<lambda>w. let ap = abspath h (cwd w) p in
           case fs w ap of
             None \<Rightarrow>
               (case fs w (dirname h ap) of
                  Some (Dir es) \<Rightarrow> (Returned (), w\<lparr>fs := (fs w)(ap \<mapsto> File True True [])\<rparr>)
                | Some (File r wr c) \<Rightarrow> (Raised NotADirectoryError, w)
                | None \<Rightarrow> (Raised FileNotFoundError, w))
           | Some (Dir es) \<Rightarrow> (Raised IsADirectoryError, w)
           | Some (File r wr c) \<Rightarrow>
               if wr then (Returned (), w\<lparr>fs := (fs w)(ap \<mapsto> File r wr [])\<rparr>)
               else (Raised PermissionError, w))"

text \<open>Writing to the handle that \<open>open_write\<close> opened.\<close>

definition file_write :: "host \<Rightarrow> string \<Rightarrow> string \<Rightarrow> unit prog" where
  "file_write h p s =
     (\<lambda>w. let ap = abspath h (cwd w) p in
           case fs w ap of
             Some (File r wr c) \<Rightarrow> (Returned (), w\<lparr>fs := (fs w)(ap \<mapsto> File r wr (c @ s))\<rparr>)
           | Some (Dir es) \<Rightarrow> (Raised OSError, w)
           | None \<Rightarrow> (Raised OSError, w))"

text \<open>A call into a library that either raises or returns.\<close>

definition lib_call :: "exn + 'a \<Rightarrow> 'a prog" where
  "lib_call r = (case r of Inl e \<Rightarrow> raise e | Inr v \<Rightarrow> ret v)"

definition strs_of :: "pyval list \<Rightarrow> string list option" where
  "strs_of args =
     (if list_all (\<lambda>v. case v of PStr s \<Rightarrow> True | _ \<Rightarrow> False) args
      then Some (map (\<lambda>v. case v of PStr s \<Rightarrow> s | _ \<Rightarrow> []) args)
      else None)"

text \<open>
  \<^verbatim>\<open>subprocess.run(args, check=True)\<close>: an argument that is not a string is a
  \<^verbatim>\<open>TypeError\<close>; a program that cannot be launched raises the operating system's error; a
  non-zero exit status raises \<^verbatim>\<open>CalledProcessError\<close>.
\<close>

definition subprocess_run :: "host \<Rightarrow> pyval list \<Rightarrow> unit prog" where
  "subprocess_run h args =
     (\<lambda>w. let w1 = w\<lparr>trace := trace w @ [Run args]\<rparr> in
           case strs_of args of
             None \<Rightarrow> (Raised TypeError, w1)
           | Some av \<Rightarrow>
               (case run h av w of
                  LaunchFailed e \<Rightarrow> (Raised e, w1)
                | Completed n fs' \<Rightarrow>
                    (if n = 0 then Returned () else Raised (CalledProcessError n),
                     w1\<lparr>fs := fs'\<rparr>)))"

text \<open>\<^verbatim>\<open>os.execv(prog, args)\<close>: on success the process image is replaced.\<close>

definition os_execv :: "host \<Rightarrow> string \<Rightarrow> string list \<Rightarrow> 'a prog" where
  "os_execv h p av =
     (\<lambda>w. let w1 = w\<lparr>trace := trace w @ [Execv p av (environ w)]\<rparr> in
           case execv h p av w of
             None \<Rightarrow> (Replaced p av, w1)
           | Some e \<Rightarrow> (Raised e, w1))"

section \<open>Strings\<close>

text \<open>\<^verbatim>\<open>s.endswith(suf)\<close>\<close>

definition endswith :: "string \<Rightarrow> string \<Rightarrow> bool" where
  "endswith s suf = (take (length suf) (rev s) = rev suf)"

text \<open>\<^verbatim>\<open>sub in s\<close>\<close>

definition contains :: "string \<Rightarrow> string \<Rightarrow> bool" where
  "contains s sub = list_ex (\<lambda>i. take (length sub) (drop i s) = sub) [0..<Suc (length s)]"

text \<open>
  A character of a string is a code point below 256; text with other characters is outside
  the model.

  \<^verbatim>\<open>s.lower()\<close> on the ASCII letters. No character outside ASCII has \<open>y\<close>, \<open>e\<close> or \<open>s\<close> as
  its lower case, so the comparisons of the source with \<open>y\<close> and \<open>yes\<close> are not affected.
\<close>

definition lower_char :: "char \<Rightarrow> char" where
  "lower_char c =
     (case map_of (zip ''ABCDEFGHIJKLMNOPQRSTUVWXYZ'' ''abcdefghijklmnopqrstuvwxyz'') c of
        Some d \<Rightarrow> d
      | None \<Rightarrow> c)"

definition lower :: "string \<Rightarrow> string" where
  "lower s = map lower_char s"

text \<open>
  \<^verbatim>\<open>s.strip()\<close>. The white space of Python below code point 256: the blank, TAB, LF, VT,
  FF, CR, the separators U+001C to U+001F, NEL (U+0085) and the no-break space (U+00A0).
\<close>

definition is_space :: "char \<Rightarrow> bool" where
  "is_space c =
     (c \<in> set [CHR '' '', CHR 0x09, CHR 0x0A, CHR 0x0B, CHR 0x0C, CHR 0x0D,
                CHR 0x1C, CHR 0x1D, CHR 0x1E, CHR 0x1F, CHR 0x85, CHR 0xA0])"

definition strip :: "string \<Rightarrow> string" where
  "strip s = rev (dropWhile is_space (rev (dropWhile is_space s)))"

fun str_of_nat :: "nat \<Rightarrow> string" where
  "str_of_nat n =
     (if n < 10 then [char_of (48 + n)] else str_of_nat (n div 10) @ [char_of (48 + n mod 10)])"

section \<open>The configuration store\<close>

text \<open>
  \<^verbatim>\<open>CONFIG_DIR = os.path.join(os.path.expanduser("~"), ".EZVenv")\<close>. When the module is
  imported it creates this directory if it is missing and configures the log file inside
  it (core.py, lines 10 to 21); this happens once, before any of the functions below is
  called, and is not part of them.
\<close>

definition CONFIG_DIR :: "host \<Rightarrow> string" where
  "CONFIG_DIR h = path_join h (home h) ''.EZVenv''"

text \<open>\<^verbatim>\<open>d.get(key, default)\<close>; a value that is not a dictionary has no such method.\<close>

definition dict_get :: "pyval \<Rightarrow> string \<Rightarrow> pyval \<Rightarrow> pyval prog" where
  "dict_get d k dflt =
     (case d of
        PDict kvs \<Rightarrow> ret (case map_of kvs (PStr k) of Some v \<Rightarrow> v | None \<Rightarrow> dflt)
      | _ \<Rightarrow> raise AttributeError)"

text \<open>\<^verbatim>\<open>EZVenv.load_config\<close> (core.py, lines 65 to 89).\<close>

definition load_config :: "host \<Rightarrow> string \<Rightarrow> pyval prog" where
  "load_config h configFile =
     bind (path_exists h configFile) (\<lambda>ex.
       if ex then
         try_except
           (bind (open_read h configFile) (\<lambda>content.
            bind (if endswith configFile ''.json'' then
                    bind (emit (Parse Json)) (\<lambda>_. lib_call (json_load h content))
                  else if endswith configFile ''.yaml'' \<or> endswith configFile ''.yml'' then
                    bind (emit (Parse Yaml)) (\<lambda>_. lib_call (yaml_safe_load h content))
                  else ret (PDict [])) (\<lambda>config.
            bind (logging INFO (Msg ''Configuration loaded from %s'' [PStr configFile])) (\<lambda>_.
            ret (if truthy config then config else PDict [])))))
           (\<lambda>e.
            bind (logging ERROR (Msg ''Error loading config file: %s'' [PStr (exn_text e)])) (\<lambda>_.
            bind (print (Msg ''Error reading config file. Using default settings.'' [])) (\<lambda>_.
            ret (PDict []))))
       else
         bind (logging INFO
                 (Msg ''No config file found at %s. Using default settings.'' [PStr configFile]))
           (\<lambda>_. ret (PDict [])))"

section \<open>The environment descriptor\<close>

text \<open>The attributes of an \<^verbatim>\<open>EZVenv\<close> instance.\<close>

record ezvenv =
  configFile :: string
  config :: pyval
  envName :: pyval
  envDir :: string
  pythonVer :: pyval
  envPath :: string
  pkgManager :: pyval
  autoInstall :: pyval
  autoUpdate :: pyval
  autoActivate :: bool

text \<open>The dictionary that \<^verbatim>\<open>save_config\<close> builds (core.py, lines 95 to 102).\<close>

definition config_data :: "ezvenv \<Rightarrow> (pyval \<times> pyval) list" where
  "config_data self =
     [(PStr ''envName'', envName self),
      (PStr ''envDir'', PStr (envDir self)),
      (PStr ''pythonVer'', pythonVer self),
      (PStr ''autoInstall'', autoInstall self),
      (PStr ''autoUpdate'', autoUpdate self),
      (PStr ''pkgManager'', pkgManager self)]"

text \<open>
  \<^verbatim>\<open>EZVenv.save_config\<close> (core.py, lines 91 to 109). Opening the file truncates it before
  the emitter runs; the emitter always writes YAML, whatever the file is called.
\<close>

definition save_config :: "host \<Rightarrow> ezvenv \<Rightarrow> unit prog" where
  "save_config h self =
     try_except
       (bind (open_write h (configFile self)) (\<lambda>_.
        bind (lib_call (yaml_dump h (PDict (config_data self)))) (\<lambda>text.
        bind (file_write h (configFile self) text) (\<lambda>_.
        logging INFO (Msg ''Configuration saved to %s'' [PStr (configFile self)])))))
       (\<lambda>e.
        bind (logging ERROR (Msg ''Failed to save configuration: %s'' [PStr (exn_text e)])) (\<lambda>_.
        print (Msg ''Failed to save configuration.'' [])))"

text \<open>\<^verbatim>\<open>EZVenv.detect_pkg_manager\<close> (core.py, lines 111 to 126).\<close>

definition detect_pkg_manager :: "host \<Rightarrow> pyval \<Rightarrow> pyval prog" where
  "detect_pkg_manager h cfg =
     bind (dict_get cfg ''pkgManager'' (PStr ''auto'')) (\<lambda>manager.
       if manager \<noteq> PStr ''auto'' then ret manager
       else if opt_truthy (which h ''poetry'') then ret (PStr ''poetry'')
       else if opt_truthy (which h ''pipenv'') then ret (PStr ''pipenv'')
       else ret (PStr ''pip''))"

text \<open>\<^verbatim>\<open>os.path.join(a, b)\<close> where \<open>b\<close> comes from the settings document.\<close>

definition join_val :: "host \<Rightarrow> string \<Rightarrow> pyval \<Rightarrow> string prog" where
  "join_val h a b = (case b of PStr s \<Rightarrow> ret (path_join h a s) | _ \<Rightarrow> raise TypeError)"

text \<open>
  \<^verbatim>\<open>EZVenv.__init__\<close> (core.py, lines 44 to 63). In \<^verbatim>\<open>a or b\<close> the right operand is only
  evaluated when the left one is false.
\<close>

definition EZVenv_init ::
  "host \<Rightarrow> string option \<Rightarrow> string option \<Rightarrow> string option \<Rightarrow> string option \<Rightarrow> bool \<Rightarrow> bool
     \<Rightarrow> ezvenv prog" where
  "EZVenv_init h config_file env_name env_dir python_ver save_defaults auto_activate =
     (let configFile' =
            (if opt_truthy config_file then opt_val config_file
             else path_join h (CONFIG_DIR h) ''ezvenv.yaml'') in
      bind (load_config h configFile') (\<lambda>config'.
      bind (if opt_truthy env_name then ret (PStr (opt_val env_name))
            else dict_get config' ''envName'' (PStr ''.venv'')) (\<lambda>envName'.
      bind (if opt_truthy env_dir then ret (opt_val env_dir) else getcwd) (\<lambda>d.
      bind (os_abspath h d) (\<lambda>envDir'.
      bind (if opt_truthy python_ver then ret (PStr (opt_val python_ver))
            else dict_get config' ''pythonVer'' (PStr (executable h))) (\<lambda>pythonVer'.
      bind (join_val h envDir' envName') (\<lambda>envPath'.
      bind (detect_pkg_manager h config') (\<lambda>pkgManager'.
      bind (dict_get config' ''autoInstall'' (PBool True)) (\<lambda>autoInstall'.
      bind (dict_get config' ''autoUpdate'' (PBool True)) (\<lambda>autoUpdate'.
      let self = \<lparr>configFile = configFile', config = config', envName = envName',
                    envDir = envDir', pythonVer = pythonVer', envPath = envPath',
                    pkgManager = pkgManager', autoInstall = autoInstall',
                    autoUpdate = autoUpdate', autoActivate = auto_activate\<rparr> in
      bind (if save_defaults then save_config h self else ret ()) (\<lambda>_.
      ret self)))))))))))"

text \<open>\<^verbatim>\<open>EZVenv._get_executable_path\<close> (core.py, lines 128 to 144).\<close>

definition get_executable_path :: "host \<Rightarrow> ezvenv \<Rightarrow> string \<Rightarrow> string" where
  "get_executable_path h self exe =
     (if os_name h = ''nt''
      then path_join h (path_join h (envPath self) ''Scripts'') (exe @ ''.exe'')
      else path_join h (path_join h (envPath self) ''bin'') exe)"

section \<open>The bootstrap controller\<close>

text \<open>\<^verbatim>\<open>EZVenv.update_core_components\<close> (core.py, lines 167 to 181).\<close>

definition update_core_components :: "host \<Rightarrow> ezvenv \<Rightarrow> unit prog" where
  "update_core_components h self =
     (let core_packages = [''pip'', ''setuptools'', ''pyyaml''] in
      bind (print (Msg ''Updating core components...'' [])) (\<lambda>_.
      let pip_executable = get_executable_path h self ''pip'' in
      bind (for_each core_packages (\<lambda>package.
              try_except_cpe
                (subprocess_run h
                   [PStr pip_executable, PStr ''install'', PStr ''--upgrade'', PStr package])
                (\<lambda>e.
                 bind (logging ERROR
                         (Msg ''Failed to update package %s: %s''
                            [PStr package, PStr (exn_text e)])) (\<lambda>_.
                 print (Msg ''Failed to update {}.'' [PStr package]))))) (\<lambda>_.
      print (Msg ''Core components updated.'' []))))"

text \<open>\<^verbatim>\<open>EZVenv.create_env\<close> (core.py, lines 146 to 165).\<close>

definition create_env :: "host \<Rightarrow> ezvenv \<Rightarrow> unit prog" where
  "create_env h self =
     bind (path_exists h (envPath self)) (\<lambda>ex.
     bind (if ex then
             bind (logging INFO
                     (Msg ''Virtual environment already exists at %s'' [PStr (envPath self)]))
               (\<lambda>_.
             print (Msg ''Virtual environment already exists at {}.'' [PStr (envPath self)]))
           else
             try_except_cpe
               (bind (logging INFO
                        (Msg ''Creating virtual environment at %s using Python %s.''
                           [PStr (envPath self), pythonVer self])) (\<lambda>_.
                bind (print
                        (Msg ''Creating virtual environment at {} using Python {}...''
                           [PStr (envPath self), pythonVer self])) (\<lambda>_.
                subprocess_run h
                  [pythonVer self, PStr ''-m'', PStr ''venv'', PStr (envPath self)])))
               (\<lambda>e.
                bind (logging ERROR
                        (Msg ''Failed to create virtual environment: %s'' [PStr (exn_text e)]))
                  (\<lambda>_.
                bind (print (Msg ''Failed to create virtual environment.'' [])) (\<lambda>_.
                sys_exit 1)))) (\<lambda>_.
     bind (print (Msg ''Virtual environment is ready: {}'' [PStr (envPath self)])) (\<lambda>_.
     update_core_components h self)))"

text \<open>\<^verbatim>\<open>EZVenv.install_deps\<close> (core.py, lines 183 to 198).\<close>

definition install_deps :: "host \<Rightarrow> ezvenv \<Rightarrow> unit prog" where
  "install_deps h self =
     (let reqPath = path_join h (envDir self) ''requirements.txt'';
          pip_executable = get_executable_path h self ''pip'' in
      bind (path_exists h reqPath) (\<lambda>ex.
        if ex then
          bind (print (Msg ''Installing dependencies from {}...'' [PStr reqPath])) (\<lambda>_.
          try_except_cpe
            (bind (subprocess_run h
                     [PStr pip_executable, PStr ''install'', PStr ''-r'', PStr reqPath]) (\<lambda>_.
             logging INFO (Msg ''Dependencies installed successfully.'' [])))
            (\<lambda>e.
             bind (logging ERROR
                     (Msg ''Failed to install dependencies: %s'' [PStr (exn_text e)])) (\<lambda>_.
             print (Msg ''Failed to install dependencies.'' []))))
        else
          print
            (Msg ''No requirements.txt found in the project directory. Skipping dependency installation.''
               [])))"

text \<open>\<^verbatim>\<open>EZVenv.update_deps\<close> (core.py, lines 200 to 229).\<close>

definition update_deps :: "host \<Rightarrow> ezvenv \<Rightarrow> unit prog" where
  "update_deps h self =
     (let reqPath = path_join h (envDir self) ''requirements.txt'';
          pip_executable = get_executable_path h self ''pip'' in
      bind (path_exists h reqPath) (\<lambda>ex.
        if \<not> ex then
          bind (print (Msg ''No requirements.txt found. Skipping update.'' [])) (\<lambda>_.
          bind (logging INFO
                  (Msg ''No requirements.txt found at %s. Skipping dependency update.''
                     [PStr reqPath])) (\<lambda>_.
          ret ()))
        else
          bind (print (Msg ''Updating dependencies...'' [])) (\<lambda>_.
          try_except_cpe
            (bind (subprocess_run h
                     [PStr pip_executable, PStr ''install'', PStr ''--upgrade'', PStr ''-r'',
                      PStr reqPath]) (\<lambda>_.
             logging INFO (Msg ''Dependencies updated successfully using %s'' [PStr reqPath])))
            (\<lambda>e.
             bind (logging ERROR
                     (Msg ''Failed to update dependencies: %s'' [PStr (exn_text e)])) (\<lambda>_.
             print (Msg ''Failed to update dependencies.'' []))))))"

text \<open>The activation marker, and the assignment \<^verbatim>\<open>os.environ[marker] = "1"\<close>.\<close>

definition MARKER :: string where
  "MARKER = ''EZVENV_ALREADY_ACTIVATED''"

definition set_marker :: "unit prog" where
  "set_marker = environ_set MARKER ''1''"

text \<open>The handler of both \<^verbatim>\<open>try: os.execv(...)\<close> blocks (core.py, lines 273 to 275, 306 to 308).\<close>

definition activation_failed :: "exn \<Rightarrow> unit prog" where
  "activation_failed e =
     bind (print (Msg ''Failed to activate virtual environment: {}'' [PStr (exn_text e)])) (\<lambda>_.
     sys_exit 1)"

text \<open>\<^verbatim>\<open>EZVenv.activate_env\<close> (core.py, lines 231 to 311).\<close>

definition activate_env :: "host \<Rightarrow> ezvenv \<Rightarrow> unit prog" where
  "activate_env h self =
     (let env_python = get_executable_path h self ''python'' in
      bind (os_abspath h (executable h)) (\<lambda>current_executable.
      let master_env = path_join h (path_join h (home h) ''.EZVenv'') ''EZVenv-Master'' in
      bind (if contains current_executable master_env then
              bind (print (Msg ''It is detected you are currently in the master EZVenv environment.'' [])) (\<lambda>_.
              bind (print (Msg ''New environment to be activated: {}'' [PStr (envPath self)])) (\<lambda>_.
              bind (print (Msg ''Choose an option:'' [])) (\<lambda>_.
              bind (print (Msg ''  1) Deactivate the master environment and then activate the new environment.'' [])) (\<lambda>_.
              bind (print (Msg ''  2) Activate the new environment on top of the master environment.'' [])) (\<lambda>_.
              bind (print (Msg ''  3) Do nothing (abort activation).'' [])) (\<lambda>_.
              bind (input (Msg ''Enter 1, 2, or 3: '' [])) (\<lambda>answer.
              let choice = strip answer in
              if choice = ''3'' then
                bind (print (Msg ''No changes made. Exiting activation.'' [])) (\<lambda>_.
                sys_exit 0)
              else if choice = ''1'' then
                bind (print (Msg ''Deactivating master environment and starting new shell with the new environment...'' [])) (\<lambda>_.
                let new_activate_script =
                      path_join h (path_join h (envPath self) ''bin'') ''activate'' in
                bind set_marker (\<lambda>_.
                os_execv h ''/bin/bash''
                  [''/bin/bash'', ''-c'', ''source '' @ new_activate_script @ '' && exec bash'']))
              else if choice = ''2'' then
                bind (print (Msg ''Proceeding to activate the new environment on top of the master environment...'' [])) (\<lambda>_.
                bind set_marker (\<lambda>_.
                try_except (os_execv h env_python (env_python # argv h)) activation_failed))
              else
                bind (print (Msg ''Invalid choice. Exiting.'' [])) (\<lambda>_.
                sys_exit 0))))))))
            else ret ()) (\<lambda>_.
      bind (os_abspath h (executable h)) (\<lambda>here.
      bind (os_abspath h env_python) (\<lambda>there.
      if here \<noteq> there then
        bind (try_except_cpe
                (subprocess_run h [PStr env_python, PStr ''-c'', PStr ''import ezvenv''])
                (\<lambda>e.
                 bind (print (Msg ''Adding master environment's site-packages to PYTHONPATH for auto-activation...'' [])) (\<lambda>_.
                 let python_version =
                       ''python'' @ str_of_nat (version_major h) @ ''.''
                         @ str_of_nat (version_minor h);
                     master_site_packages =
                       path_join h (path_join h (path_join h master_env ''lib'') python_version)
                         ''site-packages'' in
                 bind (path_exists h master_site_packages) (\<lambda>ex.
                   if ex then
                     bind (environ_get ''PYTHONPATH'') (\<lambda>pp.
                     let current_pythonpath = (case pp of None \<Rightarrow> [] | Some v \<Rightarrow> v) in
                     environ_set ''PYTHONPATH''
                       (master_site_packages
                          @ (if current_pythonpath \<noteq> [] then pathsep h @ current_pythonpath
                             else [])))
                   else
                     bind (print (Msg ''Master environment site-packages not found. Please ensure EZVenv is installed in the master environment.'' [])) (\<lambda>_.
                     sys_exit 1))))) (\<lambda>_.
        bind (print (Msg ''Activating virtual environment using {} ...'' [PStr env_python])) (\<lambda>_.
        bind set_marker (\<lambda>_.
        try_except (os_execv h env_python (env_python # argv h)) activation_failed)))
      else
        print (Msg ''New environment activated: {}'' [PStr (envPath self)]))))))"

text \<open>\<^verbatim>\<open>EZVenv.setup_env\<close> (core.py, lines 313 to 334).\<close>

definition setup_env :: "host \<Rightarrow> ezvenv \<Rightarrow> unit prog" where
  "setup_env h self =
     bind (create_env h self) (\<lambda>_.
     bind (print (Msg ''Preparing to activate environment: {}'' [PStr (envPath self)])) (\<lambda>_.
     bind (install_deps h self) (\<lambda>_.
     bind (update_deps h self) (\<lambda>_.
     bind (logging INFO (Msg ''Environment setup completed successfully.'' [])) (\<lambda>_.
     if autoActivate self then activate_env h self
     else
       print (Msg ''Auto-activation is disabled. Please activate the virtual environment manually if needed.'' []))))))"

text \<open>The test that both confirmation prompts of \<^verbatim>\<open>init_env\<close> apply to the answer.\<close>

definition declined :: "string \<Rightarrow> bool" where
  "declined answer = (lower answer \<notin> set [''y'', ''yes'', []])"

text \<open>
  The directory preparation of \<^verbatim>\<open>init_env\<close> (core.py, lines 367 to 396). It returns the
  values that \<^verbatim>\<open>env_dir\<close> and \<^verbatim>\<open>config_file\<close> have afterwards.
\<close>

definition init_env_prepare ::
  "host \<Rightarrow> string option \<Rightarrow> string option \<Rightarrow> (string \<times> string) prog" where
  "init_env_prepare h env_dir config_file =
     (if opt_truthy env_dir then
        (let d = opt_val env_dir in
         bind (path_exists h d) (\<lambda>ex.
         bind (if \<not> ex then
                 bind (print (Msg ''Directory '{}' does not exist. Creating it...'' [PStr d]))
                   (\<lambda>_.
                 makedirs h d)
               else
                 bind (listdir h d) (\<lambda>entries.
                   if entries \<noteq> [] then
                     bind (input
                             (Msg ''Directory '{}' is not empty. Are you sure you want to initialize it? (Y/n): ''
                                [PStr d])) (\<lambda>answer.
                       if declined answer then
                         bind (print (Msg ''Initialization aborted.'' [])) (\<lambda>_.
                         sys_exit 0)
                       else ret ())
                   else ret ())) (\<lambda>_.
         bind (chdir h d) (\<lambda>_.
         if \<not> opt_truthy config_file then
           bind getcwd (\<lambda>c. ret (d, path_join h c ''ezvenv.yaml''))
         else
           (let cf = opt_val config_file in
            bind (path_exists h cf) (\<lambda>ex2.
              if ex2 then
                bind (input
                        (Msg ''Configuration file '{}' already exists. Overwrite? (Y/n): ''
                           [PStr cf])) (\<lambda>answer.
                  if declined answer then
                    bind (print (Msg ''Initialization aborted due to existing configuration.'' []))
                      (\<lambda>_.
                    sys_exit 0)
                  else ret (d, cf))
              else ret (d, cf)))))))
      else
        bind getcwd (\<lambda>d.
          if \<not> opt_truthy config_file then ret (d, path_join h d ''ezvenv.yaml'')
          else
            (let cf = opt_val config_file in
             bind (path_exists h cf) (\<lambda>ex2.
               if ex2 then
                 bind (input
                         (Msg ''Configuration file '{}' already exists. Overwrite? (Y/n): ''
                            [PStr cf])) (\<lambda>answer.
                   if declined answer then
                     bind (print (Msg ''Initialization aborted due to existing configuration.'' []))
                       (\<lambda>_.
                     sys_exit 0)
                   else ret (d, cf))
               else ret (d, cf)))))"

text \<open>\<^verbatim>\<open>init_env\<close> (core.py, lines 337 to 408).\<close>

definition init_env ::
  "host \<Rightarrow> string option \<Rightarrow> string option \<Rightarrow> string option \<Rightarrow> string option \<Rightarrow> bool \<Rightarrow> bool
     \<Rightarrow> string prog" where
  "init_env h env_name env_dir python_ver config_file save_defaults auto_activate =
     bind (environ_get MARKER) (\<lambda>m.
       if m = Some ''1'' then
         bind (print (Msg ''Environment already activated, skipping re-initialization.'' []))
           (\<lambda>_.
         getcwd)
       else
         bind (init_env_prepare h env_dir config_file) (\<lambda>(env_dir', config_file').
         bind (EZVenv_init h (Some config_file') env_name (Some env_dir') python_ver
                 save_defaults auto_activate) (\<lambda>env.
         bind (setup_env h env) (\<lambda>_.
         ret (envPath env)))))"

section \<open>Observations on a run\<close>

text \<open>The events that a run from \<open>w\<close> to \<open>w'\<close> added.\<close>

definition emitted :: "world \<Rightarrow> world \<Rightarrow> event list" where
  "emitted w w' = drop (length (trace w)) (trace w')"

text \<open>
  The creation invocation of \<^verbatim>\<open>create_env\<close>: the resolved interpreter, the \<^verbatim>\<open>venv\<close>
  module and the environment path.
\<close>

definition creation_cmd :: "ezvenv \<Rightarrow> event" where
  "creation_cmd self = Run [pythonVer self, PStr ''-m'', PStr ''venv'', PStr (envPath self)]"

definition is_run :: "event \<Rightarrow> bool" where
  "is_run e = (case e of Run args \<Rightarrow> True | _ \<Rightarrow> False)"

text \<open>An \<^verbatim>\<open>os.execv\<close> call is marked when the environment it hands over has the marker set.\<close>

definition marked :: "event \<Rightarrow> bool" where
  "marked e = (case e of Execv p av env \<Rightarrow> env MARKER = Some ''1'' | _ \<Rightarrow> True)"

text \<open>
  A program all of whose \<^verbatim>\<open>os.execv\<close> calls are marked, and which leaves the marker set
  whenever the process image is replaced.
\<close>

definition exec_safe :: "'a prog \<Rightarrow> bool" where
  "exec_safe m =
     (\<forall>w. \<exists>evs. trace (snd (m w)) = trace w @ evs \<and> list_all marked evs
            \<and> (\<forall>p av. fst (m w) = Replaced p av \<longrightarrow> environ (snd (m w)) MARKER = Some ''1''))"

text \<open>A program that adds only events satisfying \<open>P\<close> and never ends the process.\<close>

definition confined :: "(event \<Rightarrow> bool) \<Rightarrow> 'a prog \<Rightarrow> bool" where
  "confined P m =
     (\<forall>w. \<exists>evs. trace (snd (m w)) = trace w @ evs \<and> list_all P evs
            \<and> (\<forall>n. fst (m w) \<noteq> Exited n))"

text \<open>Neither the creation invocation nor the report of its failure.\<close>

definition not_creation :: "ezvenv \<Rightarrow> event \<Rightarrow> bool" where
  "not_creation self e =
     (e \<noteq> creation_cmd self \<and> e \<noteq> Print (Msg ''Failed to create virtual environment.'' []))"

text \<open>
  A program that, while every pending answer on the terminal is the empty line, keeps it
  so and does not end the process.
\<close>

definition calm :: "'a prog \<Rightarrow> bool" where
  "calm m =
     (\<forall>w. (\<forall>a\<in>set (stdin w). a = []) \<longrightarrow>
        (\<forall>a\<in>set (stdin (snd (m w))). a = []) \<and> (\<forall>n. fst (m w) \<noteq> Exited n))"

section \<open>A POSIX host for the examples\<close>

text \<open>
  \<^verbatim>\<open>posixpath.join\<close>, \<^verbatim>\<open>posixpath.normpath\<close>, \<^verbatim>\<open>posixpath.abspath\<close> and
  \<^verbatim>\<open>posixpath.dirname\<close> of the Python standard library.
\<close>

fun split_on :: "char \<Rightarrow> string \<Rightarrow> string list" where
  "split_on c [] = [[]]"
| "split_on c (x # xs) =
     (if x = c then [] # split_on c xs
      else (case split_on c xs of [] \<Rightarrow> [[x]] | y # ys \<Rightarrow> (x # y) # ys))"

fun join_with :: "string \<Rightarrow> string list \<Rightarrow> string" where
  "join_with sep [] = []"
| "join_with sep [x] = x"
| "join_with sep (x # y # ys) = x @ sep @ join_with sep (y # ys)"

definition is_abs :: "string \<Rightarrow> bool" where
  "is_abs p = (take 1 p = ''/'')"

definition posix_join :: "string \<Rightarrow> string \<Rightarrow> string" where
  "posix_join a b =
     (if is_abs b then b
      else if a = [] \<or> endswith a ''/'' then a @ b
      else a @ ''/'' @ b)"

definition norm_step :: "bool \<Rightarrow> string list \<Rightarrow> string \<Rightarrow> string list" where
  "norm_step initial new_comps part =
     (if part = [] \<or> part = ''.'' then new_comps
      else if part \<noteq> ''..'' \<or> (\<not> initial \<and> new_comps = [])
                \<or> (new_comps \<noteq> [] \<and> last new_comps = ''..'')
        then new_comps @ [part]
      else if new_comps \<noteq> [] then butlast new_comps
      else new_comps)"

definition posix_normpath :: "string \<Rightarrow> string" where
  "posix_normpath p =
     (if p = [] then ''.''
      else
        (let initial_slashes =
               (if is_abs p then (if take 2 p = ''//'' \<and> take 3 p \<noteq> ''///'' then 2 else 1)
                else (0::nat));
             comps = foldl (norm_step (initial_slashes \<noteq> 0)) [] (split_on CHR ''/'' p);
             q = replicate initial_slashes CHR ''/'' @ join_with ''/'' comps
         in if q = [] then ''.'' else q))"

definition posix_abspath :: "string \<Rightarrow> string \<Rightarrow> string" where
  "posix_abspath wd p = posix_normpath (if is_abs p then p else posix_join wd p)"

definition posix_dirname :: "string \<Rightarrow> string" where
  "posix_dirname p =
     (let head = rev (dropWhile (\<lambda>c. c \<noteq> CHR ''/'') (rev p)) in
      if head \<noteq> [] \<and> head \<noteq> replicate (length head) CHR ''/''
      then rev (dropWhile (\<lambda>c. c = CHR ''/'') (rev head))
      else head)"

text \<open>
  A stand-in for the YAML library on flat documents of plain scalars: one
  \<^verbatim>\<open>key: value\<close> line per entry, \<^verbatim>\<open>true\<close> and \<^verbatim>\<open>false\<close> for the Booleans. The empty
  document loads as \<^verbatim>\<open>None\<close>, a single line without a colon as that scalar, and a value
  with a further \<^verbatim>\<open>: \<close> in it is an error. The emitter writes the entries in the order
  given, where the library sorts them by key. Only the examples use it.
\<close>

definition flat_scalar :: "pyval \<Rightarrow> string option" where
  "flat_scalar v =
     (case v of
        PStr s \<Rightarrow> Some s
      | PBool b \<Rightarrow> Some (if b then ''true'' else ''false'')
      | _ \<Rightarrow> None)"

fun flat_dump_items :: "(pyval \<times> pyval) list \<Rightarrow> string option" where
  "flat_dump_items [] = Some []"
| "flat_dump_items ((k, v) # kvs) =
     (case (flat_scalar k, flat_scalar v, flat_dump_items kvs) of
        (Some a, Some b, Some r) \<Rightarrow> Some (a @ '': '' @ b @ [CHR 0x0A] @ r)
      | _ \<Rightarrow> None)"

definition flat_dump :: "pyval \<Rightarrow> exn + string" where
  "flat_dump v =
     (case v of
        PDict kvs \<Rightarrow>
          (case flat_dump_items kvs of
             Some s \<Rightarrow> Inr s
           | None \<Rightarrow> Inl (LibraryError ''RepresenterError''))
      | _ \<Rightarrow> Inl (LibraryError ''RepresenterError''))"

fun split_kv :: "string \<Rightarrow> (string \<times> string) option" where
  "split_kv [] = None"
| "split_kv (c # cs) =
     (if take 2 (c # cs) = '': '' then Some ([], drop 1 cs)
      else (case split_kv cs of None \<Rightarrow> None | Some (k, v) \<Rightarrow> Some (c # k, v)))"

definition flat_value :: "string \<Rightarrow> pyval" where
  "flat_value s = (if s = ''true'' then PBool True else if s = ''false'' then PBool False else PStr s)"

definition flat_entry_ok :: "string \<Rightarrow> bool" where
  "flat_entry_ok l =
     (case split_kv l of None \<Rightarrow> False | Some (k, v) \<Rightarrow> split_kv v = None)"

definition flat_load :: "string \<Rightarrow> exn + pyval" where
  "flat_load s =
     (let ls = filter (\<lambda>l. l \<noteq> []) (split_on (CHR 0x0A) s) in
      if ls = [] then Inr PNone
      else if list_all flat_entry_ok ls then
        Inr (PDict (map (\<lambda>l. case split_kv l of
                               Some (k, v) \<Rightarrow> (PStr k, flat_value v)
                             | None \<Rightarrow> (PNone, PNone)) ls))
      else if length ls = 1 \<and> split_kv (hd ls) = None then Inr (flat_value (hd ls))
      else Inl (LibraryError ''ScannerError''))"

text \<open>
  The example host: Python 3.11 at \<^verbatim>\<open>/usr/bin/python3\<close> on a POSIX system, neither
  \<^verbatim>\<open>poetry\<close> nor \<^verbatim>\<open>pipenv\<close> installed, directories that can be created, a JSON parser that rejects its input, child
  processes that succeed and change nothing, and an \<^verbatim>\<open>os.execv\<close> that succeeds.
\<close>

definition demo_host :: host where
  "demo_host =
     \<lparr>os_name = ''posix'',
      executable = ''/usr/bin/python3'',
      argv = [''/usr/local/bin/ezvenv'', ''init''],
      version_major = 3,
      version_minor = 11,
      home = ''/home/u'',
      pathsep = '':'',
      path_join = posix_join,
      abspath = posix_abspath,
      dirname = posix_dirname,
      which = (\<lambda>name. None),
      makedirs_error = (\<lambda>p w. None),
      json_load = (\<lambda>s. Inl (LibraryError ''JSONDecodeError'')),
      yaml_safe_load = flat_load,
      yaml_dump = flat_dump,
      run = (\<lambda>av w. Completed 0 (fs w)),
      execv = (\<lambda>p av w. None)\<rparr>"

text \<open>The same host with an interpreter whose \<^verbatim>\<open>venv\<close> module fails.\<close>

definition failing_host :: host where
  "failing_host = demo_host\<lparr>run := (\<lambda>av w. Completed 1 (fs w))\<rparr>"

text \<open>
  The example world: a home directory with a project that has one source file and no
  dependency manifest, an empty directory, a settings document that stores another project directory, a
  settings document under a name with another extension, one that is not valid JSON, one
  that is not valid YAML, and one that its owner may not read.
\<close>

text \<open>A settings document that stores an environment name and a package manager.\<close>

definition full_yaml_text :: string where
  "full_yaml_text = ''envName: old'' @ [CHR 0x0A] @ ''pkgManager: poetry'' @ [CHR 0x0A]"

definition demo_fs :: "string \<Rightarrow> node option" where
  "demo_fs =
     map_of
       [(''/home/u'', Dir [''proj'', ''empty'', ''ez.yaml'', ''full.yaml'', ''ezvenv.cfg'',
               ''broken.json'', ''bad.yaml'', ''locked.ini'']),
        (''/home/u/proj'', Dir [''main.py'']),
        (''/home/u/proj/main.py'', File True True ''print(1)''),
        (''/home/u/ez.yaml'', File True True ''envDir: /srv/other''),
        (''/home/u/ezvenv.cfg'', File True True ''envName: old''),
        (''/home/u/broken.json'', File True True ''envName: old''),
        (''/home/u/bad.yaml'', File True True ''a: b: c''),
        (''/home/u/empty'', Dir []),
        (''/home/u/full.yaml'', File True True full_yaml_text),
        (''/home/u/locked.ini'', File False False ''envName: old'')]"

definition demo_world :: world where
  "demo_world =
     \<lparr>fs = demo_fs, environ = Map.empty, cwd = ''/home/u'', stdin = [], trace = []\<rparr>"

text \<open>An instance as \<^verbatim>\<open>EZVenv()\<close> builds it in \<^verbatim>\<open>/home/u/proj\<close> without a settings document.\<close>

definition demo_self :: "string \<Rightarrow> ezvenv" where
  "demo_self cf =
     \<lparr>configFile = cf,
      config = PDict [],
      envName = PStr ''.venv'',
      envDir = ''/home/u/proj'',
      pythonVer = PStr ''/usr/bin/python3'',
      envPath = ''/home/u/proj/.venv'',
      pkgManager = PStr ''pip'',
      autoInstall = PBool True,
      autoUpdate = PBool True,
      autoActivate = True\<rparr>"

text \<open>The document that the stand-in emitter writes for this instance.\<close>

definition demo_yaml_text :: string where
  "demo_yaml_text =
     ''envName: .venv'' @ [CHR 0x0A] @ ''envDir: /home/u/proj'' @ [CHR 0x0A]
       @ ''pythonVer: /usr/bin/python3'' @ [CHR 0x0A] @ ''autoInstall: true'' @ [CHR 0x0A]
       @ ''autoUpdate: true'' @ [CHR 0x0A] @ ''pkgManager: pip'' @ [CHR 0x0A]"

section \<open>Unfolding the programs and the examples\<close>

lemmas prog_simps =
  ret_def raise_def sys_exit_def bind_def try_except_def try_except_cpe_def emit_def print_def
  logging_def input_def getcwd_def os_abspath_def environ_get_def environ_set_def
  path_exists_def listdir_def makedirs_def chdir_def open_read_def open_write_def
  file_write_def lib_call_def

lemma demo_host_simps:
  "os_name demo_host = ''posix''"
  "executable demo_host = ''/usr/bin/python3''"
  "argv demo_host = [''/usr/local/bin/ezvenv'', ''init'']"
  "version_major demo_host = 3"
  "version_minor demo_host = 11"
  "home demo_host = ''/home/u''"
  "pathsep demo_host = '':''"
  "path_join demo_host = posix_join"
  "abspath demo_host = posix_abspath"
  "dirname demo_host = posix_dirname"
  "which demo_host = (\<lambda>name. None)"
  "makedirs_error demo_host = (\<lambda>p w. None)"
  "json_load demo_host = (\<lambda>s. Inl (LibraryError ''JSONDecodeError''))"
  "yaml_safe_load demo_host = flat_load"
  "yaml_dump demo_host = flat_dump"
  "run demo_host = (\<lambda>av w. Completed 0 (fs w))"
  "execv demo_host = (\<lambda>p av w. None)"
  by (simp_all add: demo_host_def)

lemma demo_world_simps:
  "fs demo_world = demo_fs"
  "environ demo_world = Map.empty"
  "cwd demo_world = ''/home/u''"
  "stdin demo_world = []"
  "trace demo_world = []"
  by (simp_all add: demo_world_def)

lemma demo_paths:
  "posix_abspath ''/home/u'' ''/home/u/none.yaml'' = ''/home/u/none.yaml''"
  "posix_abspath ''/home/u'' ''/home/u/broken.json'' = ''/home/u/broken.json''"
  "posix_abspath ''/home/u'' ''/home/u/bad.yaml'' = ''/home/u/bad.yaml''"
  "posix_abspath ''/home/u'' ''/home/u/locked.ini'' = ''/home/u/locked.ini''"
  "posix_abspath ''/home/u'' ''/home/u/ezvenv.cfg'' = ''/home/u/ezvenv.cfg''"
  "posix_abspath ''/home/u'' ''/home/u/ez.yaml'' = ''/home/u/ez.yaml''"
  "posix_abspath ''/home/u'' ''proj'' = ''/home/u/proj''"
  "posix_abspath ''/home/u'' ''newproj'' = ''/home/u/newproj''"
  "posix_abspath ''/home/u/newproj'' ''/home/u/ez.yaml'' = ''/home/u/ez.yaml''"
  "posix_join ''/home/u/proj'' ''requirements.txt'' = ''/home/u/proj/requirements.txt''"
  "posix_abspath ''/home/u'' ''/home/u/proj/requirements.txt'' = ''/home/u/proj/requirements.txt''"
  by code_simp+

lemma lower_simps:
  "lower ''n'' = ''n''"
  "lower '' '' = '' ''"
  "lower [] = []"
  by (simp_all add: lower_def lower_char_def)

section \<open>The activation marker at entry\<close>

text \<open>
  Claim C1, as amended. When the activation marker \<^verbatim>\<open>EZVENV_ALREADY_ACTIVATED\<close> has the
  value \<^verbatim>\<open>1\<close> at entry, \<^verbatim>\<open>init_env\<close> returns the current working directory at once: the
  file system, the environment, the working directory and the pending input are as they
  were, no child process is run and no activation is attempted; one line is printed.
\<close>

theorem init_env_marker:
  "environ w MARKER = Some ''1'' \<Longrightarrow>
   init_env h env_name env_dir python_ver config_file save_defaults auto_activate w =
     (Returned (cwd w),
      w\<lparr>trace := trace w @
         [Print (Msg ''Environment already activated, skipping re-initialization.'' [])]\<rparr>)"
  by (simp add: init_env_def prog_simps)

text \<open>The example world with the marker set to \<^verbatim>\<open>1\<close>.\<close>

theorem init_env_marker_witness:
  "environ (demo_world\<lparr>environ := [MARKER \<mapsto> ''1'']\<rparr>) MARKER = Some ''1''
   \<and> init_env demo_host None (Some ''proj'') None None False True
        (demo_world\<lparr>environ := [MARKER \<mapsto> ''1'']\<rparr>) =
       (Returned ''/home/u'',
        demo_world\<lparr>environ := [MARKER \<mapsto> ''1''],
          trace := [Print (Msg ''Environment already activated, skipping re-initialization.'' [])]\<rparr>)"
  using init_env_marker
    [of "demo_world\<lparr>environ := [MARKER \<mapsto> ''1'']\<rparr>" demo_host None "Some ''proj''" None None
      False True]
  by (simp add: demo_world_simps)

text \<open>
  The source compares the marker with \<^verbatim>\<open>"1"\<close>; a marker that is present with another
  value does not stop \<^verbatim>\<open>init_env\<close>. With the marker set to \<^verbatim>\<open>0\<close>, a target directory
  that does not exist yet and an existing settings document whose overwriting is declined,
  \<^verbatim>\<open>init_env\<close> creates the directory, enters it, and ends the process instead of returning.
\<close>

theorem init_env_marker_other_value:
  "environ (demo_world\<lparr>environ := [MARKER \<mapsto> ''0''], stdin := [''n'']\<rparr>) MARKER = Some ''0''
   \<and> fs (demo_world\<lparr>environ := [MARKER \<mapsto> ''0''], stdin := [''n'']\<rparr>) ''/home/u/newproj'' = None
   \<and> fst (init_env demo_host None (Some ''newproj'') None (Some ''/home/u/ez.yaml'') False True
            (demo_world\<lparr>environ := [MARKER \<mapsto> ''0''], stdin := [''n'']\<rparr>)) = Exited 0
   \<and> fs (snd (init_env demo_host None (Some ''newproj'') None (Some ''/home/u/ez.yaml'') False True
            (demo_world\<lparr>environ := [MARKER \<mapsto> ''0''], stdin := [''n'']\<rparr>))) ''/home/u/newproj''
        = Some (Dir [])
   \<and> cwd (snd (init_env demo_host None (Some ''newproj'') None (Some ''/home/u/ez.yaml'') False True
            (demo_world\<lparr>environ := [MARKER \<mapsto> ''0''], stdin := [''n'']\<rparr>))) = ''/home/u/newproj''"
  by (simp add: init_env_def init_env_prepare_def prog_simps Let_def opt_truthy_def opt_val_def
      demo_host_simps demo_world_simps demo_paths demo_fs_def MARKER_def declined_def lower_simps)

section \<open>Declining the confirmation for a non-empty directory\<close>

text \<open>
  Claim C2. Given a target directory that exists and is not empty, and an answer to the
  confirmation that is none of \<^verbatim>\<open>y\<close>, \<^verbatim>\<open>yes\<close> and the empty string (in any letter case),
  \<^verbatim>\<open>init_env\<close> ends the process with exit code 0; the file system, the working directory
  and the environment are unchanged, and nothing but the prompt and one line are written.
  (With the marker set to \<^verbatim>\<open>1\<close> no confirmation is asked at all: then \<^verbatim>\<open>init_env\<close> returns,
  again without any change.)
\<close>

theorem init_env_declined:
  assumes "opt_truthy env_dir"
    and "fs w (abspath h (cwd w) (opt_val env_dir)) = Some (Dir entries)"
    and "entries \<noteq> []"
    and "stdin w = answer # rest"
    and "declined answer"
  shows "init_env h env_name env_dir python_ver config_file save_defaults auto_activate w =
     (if environ w MARKER = Some ''1'' then
        (Returned (cwd w),
         w\<lparr>trace := trace w @
           [Print (Msg ''Environment already activated, skipping re-initialization.'' [])]\<rparr>)
      else
        (Exited 0,
         w\<lparr>stdin := rest,
           trace := trace w @
             [Prompt (Msg ''Directory '{}' is not empty. Are you sure you want to initialize it? (Y/n): ''
                        [PStr (opt_val env_dir)]),
              Print (Msg ''Initialization aborted.'' [])]\<rparr>))"
  using assms by (simp add: init_env_def init_env_prepare_def prog_simps Let_def)

text \<open>The project directory of the example world, and the answer \<^verbatim>\<open>n\<close>.\<close>

theorem init_env_declined_witness:
  "opt_truthy (Some ''proj'')
   \<and> fs (demo_world\<lparr>stdin := [''n'']\<rparr>)
        (abspath demo_host (cwd (demo_world\<lparr>stdin := [''n'']\<rparr>)) (opt_val (Some ''proj'')))
       = Some (Dir [''main.py''])
   \<and> declined ''n''
   \<and> init_env demo_host None (Some ''proj'') None None False True (demo_world\<lparr>stdin := [''n'']\<rparr>) =
       (Exited 0,
        demo_world\<lparr>stdin := [],
          trace :=
            [Prompt (Msg ''Directory '{}' is not empty. Are you sure you want to initialize it? (Y/n): ''
                       [PStr ''proj'']),
             Print (Msg ''Initialization aborted.'' [])]\<rparr>)"
  using init_env_declined
    [of "Some ''proj''" "demo_world\<lparr>stdin := [''n'']\<rparr>" demo_host "[''main.py'']" "''n''" "[]"
      None None None False True]
  by (simp add: opt_truthy_def opt_val_def demo_host_simps demo_world_simps demo_paths
      demo_fs_def declined_def lower_simps MARKER_def)

section \<open>Loading the settings document\<close>

text \<open>
  Claim C5. \<^verbatim>\<open>load_config\<close> always returns to its caller, whatever the path, the file
  system and the parsers do. When the file is missing it returns the empty dictionary.
  When the file exists and the parser chosen by its extension raises, or the file cannot
  be read, it logs the error, warns the user and returns the empty dictionary.
\<close>

theorem load_config_fails_soft:
  "(\<exists>c w'. load_config h f w = (Returned c, w'))
   \<and> (fs w (abspath h (cwd w) f) = None \<longrightarrow>
        load_config h f w =
          (Returned (PDict []),
           w\<lparr>trace := trace w @
              [Log INFO (Msg ''No config file found at %s. Using default settings.'' [PStr f])]\<rparr>))
   \<and> (fs w (abspath h (cwd w) f) = Some (File True wr content) \<and> endswith f ''.json''
        \<and> json_load h content = Inl e \<longrightarrow>
        load_config h f w =
          (Returned (PDict []),
           w\<lparr>trace := trace w @
              [Parse Json,
               Log ERROR (Msg ''Error loading config file: %s'' [PStr (exn_text e)]),
               Print (Msg ''Error reading config file. Using default settings.'' [])]\<rparr>))
   \<and> (fs w (abspath h (cwd w) f) = Some (File True wr content) \<and> \<not> endswith f ''.json''
        \<and> (endswith f ''.yaml'' \<or> endswith f ''.yml'')
        \<and> yaml_safe_load h content = Inl e \<longrightarrow>
        load_config h f w =
          (Returned (PDict []),
           w\<lparr>trace := trace w @
              [Parse Yaml,
               Log ERROR (Msg ''Error loading config file: %s'' [PStr (exn_text e)]),
               Print (Msg ''Error reading config file. Using default settings.'' [])]\<rparr>))
   \<and> (fs w (abspath h (cwd w) f) = Some (File False wr content) \<longrightarrow>
        load_config h f w =
          (Returned (PDict []),
           w\<lparr>trace := trace w @
              [Log ERROR (Msg ''Error loading config file: %s'' [PStr (exn_text PermissionError)]),
               Print (Msg ''Error reading config file. Using default settings.'' [])]\<rparr>))"
proof (intro conjI impI)
  show "\<exists>c w'. load_config h f w = (Returned c, w')"
    by (auto simp: load_config_def prog_simps split: option.splits node.splits sum.splits)
qed (simp_all add: load_config_def prog_simps)

text \<open>
  A missing document, one that is not valid JSON, one that is not valid YAML and one that
  may not be read.
\<close>

theorem load_config_fails_soft_witness:
  "load_config demo_host ''/home/u/none.yaml'' demo_world =
     (Returned (PDict []),
      demo_world\<lparr>trace :=
        [Log INFO (Msg ''No config file found at %s. Using default settings.''
                     [PStr ''/home/u/none.yaml''])]\<rparr>)
   \<and> load_config demo_host ''/home/u/broken.json'' demo_world =
     (Returned (PDict []),
      demo_world\<lparr>trace :=
        [Parse Json,
         Log ERROR (Msg ''Error loading config file: %s'' [PStr ''JSONDecodeError'']),
         Print (Msg ''Error reading config file. Using default settings.'' [])]\<rparr>)
   \<and> load_config demo_host ''/home/u/bad.yaml'' demo_world =
     (Returned (PDict []),
      demo_world\<lparr>trace :=
        [Parse Yaml,
         Log ERROR (Msg ''Error loading config file: %s'' [PStr ''ScannerError'']),
         Print (Msg ''Error reading config file. Using default settings.'' [])]\<rparr>)
   \<and> load_config demo_host ''/home/u/locked.ini'' demo_world =
     (Returned (PDict []),
      demo_world\<lparr>trace :=
        [Log ERROR (Msg ''Error loading config file: %s'' [PStr ''PermissionError'']),
         Print (Msg ''Error reading config file. Using default settings.'' [])]\<rparr>)"
proof -
  have bad: "flat_load ''a: b: c'' = Inl (LibraryError ''ScannerError'')"
    by code_simp
  show ?thesis
    using load_config_fails_soft [of demo_host "''/home/u/none.yaml''" demo_world]
      load_config_fails_soft
        [of demo_host "''/home/u/broken.json''" demo_world True "''envName: old''"
          "LibraryError ''JSONDecodeError''"]
      load_config_fails_soft
        [of demo_host "''/home/u/bad.yaml''" demo_world True "''a: b: c''"
          "LibraryError ''ScannerError''"]
      load_config_fails_soft
        [of demo_host "''/home/u/locked.ini''" demo_world False "''envName: old''"]
    by (simp add: demo_host_simps demo_world_simps demo_paths demo_fs_def endswith_def
        exn_text_def bad)
qed

text \<open>
  Claim C10, as amended. For an existing settings document that can be opened for reading
  and whose name ends in none of \<^verbatim>\<open>.json\<close>, \<^verbatim>\<open>.yaml\<close> and \<^verbatim>\<open>.yml\<close>, \<^verbatim>\<open>load_config\<close> calls no
  parser, prints nothing, logs no error and returns the empty dictionary: the same value
  and the same console output as when the file is removed. The two runs differ in the
  information record of the log only.
\<close>

theorem load_config_other_extension:
  assumes "fs w (abspath h (cwd w) f) = Some (File True wr content)"
    and "\<not> endswith f ''.json''" and "\<not> endswith f ''.yaml''" and "\<not> endswith f ''.yml''"
  shows "load_config h f w =
           (Returned (PDict []),
            w\<lparr>trace := trace w @ [Log INFO (Msg ''Configuration loaded from %s'' [PStr f])]\<rparr>)
       \<and> load_config h f (w\<lparr>fs := (fs w)(abspath h (cwd w) f := None)\<rparr>) =
           (Returned (PDict []),
            w\<lparr>fs := (fs w)(abspath h (cwd w) f := None),
              trace := trace w @
                [Log INFO (Msg ''No config file found at %s. Using default settings.'' [PStr f])]\<rparr>)"
  using assms by (simp add: load_config_def prog_simps truthy_def)

text \<open>The settings document \<^verbatim>\<open>ezvenv.cfg\<close> of the example world.\<close>

theorem load_config_other_extension_witness:
  "fs demo_world (abspath demo_host (cwd demo_world) ''/home/u/ezvenv.cfg'')
       = Some (File True True ''envName: old'')
   \<and> \<not> endswith ''/home/u/ezvenv.cfg'' ''.json''
   \<and> \<not> endswith ''/home/u/ezvenv.cfg'' ''.yaml''
   \<and> \<not> endswith ''/home/u/ezvenv.cfg'' ''.yml''
   \<and> load_config demo_host ''/home/u/ezvenv.cfg'' demo_world =
       (Returned (PDict []),
        demo_world\<lparr>trace :=
          [Log INFO (Msg ''Configuration loaded from %s'' [PStr ''/home/u/ezvenv.cfg''])]\<rparr>)"
  using load_config_other_extension
    [of demo_world demo_host "''/home/u/ezvenv.cfg''" True "''envName: old''"]
  by (simp add: demo_host_simps demo_world_simps demo_paths demo_fs_def endswith_def)

text \<open>
  An existing document that its owner may not read is not passed over in silence,
  whatever its name: opening it raises inside the \<^verbatim>\<open>try\<close> block, so the error is logged
  and the user is warned.
\<close>

theorem load_config_unreadable_warns:
  "fs demo_world ''/home/u/locked.ini'' = Some (File False False ''envName: old'')
   \<and> load_config demo_host ''/home/u/locked.ini'' demo_world =
       (Returned (PDict []),
        demo_world\<lparr>trace :=
          [Log ERROR (Msg ''Error loading config file: %s'' [PStr ''PermissionError'']),
           Print (Msg ''Error reading config file. Using default settings.'' [])]\<rparr>)"
  by (simp add: load_config_def prog_simps demo_host_simps demo_world_simps demo_paths
      demo_fs_def exn_text_def)

section \<open>Dependencies without a manifest\<close>

text \<open>
  Claim C6. When the project directory has no \<^verbatim>\<open>requirements.txt\<close>, both \<^verbatim>\<open>install_deps\<close>
  and \<^verbatim>\<open>update_deps\<close> return normally without a single call of \<^verbatim>\<open>subprocess.run\<close>; they
  only report that the step is skipped.
\<close>

theorem deps_without_manifest:
  assumes "fs w (abspath h (cwd w) (path_join h (envDir self) ''requirements.txt'')) = None"
  shows "install_deps h self w =
           (Returned (),
            w\<lparr>trace := trace w @
               [Print (Msg ''No requirements.txt found in the project directory. Skipping dependency installation.'' [])]\<rparr>)
       \<and> update_deps h self w =
           (Returned (),
            w\<lparr>trace := trace w @
               [Print (Msg ''No requirements.txt found. Skipping update.'' []),
                Log INFO (Msg ''No requirements.txt found at %s. Skipping dependency update.''
                            [PStr (path_join h (envDir self) ''requirements.txt'')])]\<rparr>)
       \<and> filter is_run (emitted w (snd (install_deps h self w))) = []
       \<and> filter is_run (emitted w (snd (update_deps h self w))) = []"
  using assms
  by (simp add: install_deps_def update_deps_def prog_simps Let_def emitted_def is_run_def)

text \<open>The project of the example world has no manifest.\<close>

theorem deps_without_manifest_witness:
  "fs demo_world
     (abspath demo_host (cwd demo_world)
        (path_join demo_host (envDir (demo_self ''/home/u/ez.yaml'')) ''requirements.txt'')) = None
   \<and> fst (install_deps demo_host (demo_self ''/home/u/ez.yaml'') demo_world) = Returned ()
   \<and> fst (update_deps demo_host (demo_self ''/home/u/ez.yaml'') demo_world) = Returned ()
   \<and> filter is_run (trace (snd (install_deps demo_host (demo_self ''/home/u/ez.yaml'') demo_world))) = []
   \<and> filter is_run (trace (snd (update_deps demo_host (demo_self ''/home/u/ez.yaml'') demo_world))) = []"
  using deps_without_manifest [of demo_world demo_host "demo_self ''/home/u/ez.yaml''"]
  by (simp add: demo_host_simps demo_world_simps demo_paths demo_fs_def demo_self_def
      emitted_def is_run_def)

section \<open>The marker before every replacement of the process image\<close>

lemma strs_of_simps:
  "strs_of [PStr a, PStr b, PStr c] = Some [a, b, c]"
  "strs_of [PStr a, PStr b, PStr c, PStr d] = Some [a, b, c, d]"
  "strs_of [PStr a, PStr b, PStr c, PStr d, PStr e] = Some [a, b, c, d, e]"
  by (simp_all add: strs_of_def)

lemma exec_safe_bind:
  assumes m: "exec_safe m" and k: "\<And>x. exec_safe (k x)"
  shows "exec_safe (bind m k)"
  unfolding exec_safe_def
proof
  fix w
  obtain r w1 where mw: "m w = (r, w1)" by (cases "m w")
  from m obtain evs1 where e1: "trace w1 = trace w @ evs1" "list_all marked evs1"
    and r1: "\<forall>p av. r = Replaced p av \<longrightarrow> environ w1 MARKER = Some ''1''"
    unfolding exec_safe_def using mw by (metis fst_conv snd_conv)
  show "\<exists>evs. trace (snd (bind m k w)) = trace w @ evs \<and> list_all marked evs
            \<and> (\<forall>p av. fst (bind m k w) = Replaced p av \<longrightarrow>
                  environ (snd (bind m k w)) MARKER = Some ''1'')"
  proof (cases r)
    case (Returned x)
    from k [of x] obtain evs2 where e2: "trace (snd (k x w1)) = trace w1 @ evs2"
        "list_all marked evs2"
      and r2: "\<forall>p av. fst (k x w1) = Replaced p av \<longrightarrow> environ (snd (k x w1)) MARKER = Some ''1''"
      unfolding exec_safe_def by blast
    have "bind m k w = k x w1" using mw Returned by (simp add: bind_def)
    with e1 e2 r2 show ?thesis by (intro exI [of _ "evs1 @ evs2"]) simp
  next
    case (Raised e)
    then have "bind m k w = (Raised e, w1)" using mw by (simp add: bind_def)
    with e1 show ?thesis by (intro exI [of _ evs1]) simp
  next
    case (Exited n)
    then have "bind m k w = (Exited n, w1)" using mw by (simp add: bind_def)
    with e1 show ?thesis by (intro exI [of _ evs1]) simp
  next
    case (Replaced p av)
    then have "bind m k w = (Replaced p av, w1)" using mw by (simp add: bind_def)
    with e1 r1 Replaced show ?thesis by (intro exI [of _ evs1]) simp
  qed
qed

lemma exec_safe_try_except_cpe:
  assumes m: "exec_safe m" and k: "\<And>e. exec_safe (k e)"
  shows "exec_safe (try_except_cpe m k)"
  unfolding exec_safe_def
proof
  fix w
  obtain r w1 where mw: "m w = (r, w1)" by (cases "m w")
  from m obtain evs1 where e1: "trace w1 = trace w @ evs1" "list_all marked evs1"
    and r1: "\<forall>p av. r = Replaced p av \<longrightarrow> environ w1 MARKER = Some ''1''"
    unfolding exec_safe_def using mw by (metis fst_conv snd_conv)
  show "\<exists>evs. trace (snd (try_except_cpe m k w)) = trace w @ evs \<and> list_all marked evs
            \<and> (\<forall>p av. fst (try_except_cpe m k w) = Replaced p av \<longrightarrow>
                  environ (snd (try_except_cpe m k w)) MARKER = Some ''1'')"
  proof (cases "\<exists>n. r = Raised (CalledProcessError n)")
    case True
    then obtain n where rn: "r = Raised (CalledProcessError n)" by blast
    from k [of "CalledProcessError n"] obtain evs2
      where e2: "trace (snd (k (CalledProcessError n) w1)) = trace w1 @ evs2" "list_all marked evs2"
      and r2: "\<forall>p av. fst (k (CalledProcessError n) w1) = Replaced p av \<longrightarrow>
                 environ (snd (k (CalledProcessError n) w1)) MARKER = Some ''1''"
      unfolding exec_safe_def by blast
    have "try_except_cpe m k w = k (CalledProcessError n) w1"
      using mw rn by (simp add: try_except_cpe_def)
    with e1 e2 r2 show ?thesis by (intro exI [of _ "evs1 @ evs2"]) simp
  next
    case False
    then have "try_except_cpe m k w = (r, w1)"
      using mw by (auto simp: try_except_cpe_def split: outcome.splits exn.splits)
    with e1 r1 show ?thesis by (intro exI [of _ evs1]) simp
  qed
qed

lemma exec_safe_prims:
  "exec_safe (ret x)"
  "exec_safe (sys_exit n)"
  "exec_safe (print ms)"
  "exec_safe (input ms)"
  "exec_safe (os_abspath h q)"
  "exec_safe (environ_get key)"
  "exec_safe (path_exists h q)"
  "exec_safe (subprocess_run h args)"
  by (auto simp: exec_safe_def prog_simps subprocess_run_def marked_def Let_def
      split: list.splits option.splits proc_result.splits)

lemma exec_safe_environ_set: "exec_safe (environ_set key v)"
  by (simp add: exec_safe_def prog_simps)

lemma exec_safe_shell: "exec_safe (bind set_marker (\<lambda>_. os_execv h q av))"
  by (auto simp: exec_safe_def prog_simps set_marker_def os_execv_def marked_def Let_def
      split: option.splits)

lemma exec_safe_reexec:
  "exec_safe (bind set_marker (\<lambda>_. try_except (os_execv h q av) activation_failed))"
  by (auto simp: exec_safe_def prog_simps set_marker_def os_execv_def marked_def Let_def
      activation_failed_def split: option.splits)

lemma exec_safe_if:
  "(c \<Longrightarrow> exec_safe a) \<Longrightarrow> (\<not> c \<Longrightarrow> exec_safe b) \<Longrightarrow> exec_safe (if c then a else b)"
  by simp

lemma exec_safe_activate_env: "exec_safe (activate_env h self)"
  unfolding activate_env_def Let_def
  by (rule exec_safe_shell | rule exec_safe_reexec | rule exec_safe_bind | rule exec_safe_if
      | rule exec_safe_try_except_cpe | rule exec_safe_prims | rule exec_safe_environ_set)+

text \<open>
  Claim C8. Every call of \<^verbatim>\<open>os.execv\<close> that \<^verbatim>\<open>activate_env\<close> makes, whether it succeeds or
  raises, is made with the activation marker already set to \<^verbatim>\<open>1\<close> in the process
  environment; and whenever the process image is replaced, the marker is set.
\<close>

theorem activate_env_marker_before_exec:
  "list_all marked (emitted w (snd (activate_env h self w)))
   \<and> (\<forall>p av. fst (activate_env h self w) = Replaced p av \<longrightarrow>
         environ (snd (activate_env h self w)) MARKER = Some ''1'')"
  using exec_safe_activate_env [of h self]
  unfolding exec_safe_def emitted_def
  by (metis append_eq_conv_conj)

lemma demo_activate:
  "fst (activate_env demo_host (demo_self ''/home/u/ez.yaml'') demo_world) =
     Replaced ''/home/u/proj/.venv/bin/python''
       [''/home/u/proj/.venv/bin/python'', ''/usr/local/bin/ezvenv'', ''init'']"
  by code_simp

text \<open>
  In the example world the marker is not set at first, the interpreter is not the one of
  the environment, and the process image is replaced with the marker set.
\<close>

theorem activate_env_marker_before_exec_witness:
  "fst (activate_env demo_host (demo_self ''/home/u/ez.yaml'') demo_world) =
     Replaced ''/home/u/proj/.venv/bin/python''
       [''/home/u/proj/.venv/bin/python'', ''/usr/local/bin/ezvenv'', ''init'']
   \<and> environ demo_world MARKER = None
   \<and> environ (snd (activate_env demo_host (demo_self ''/home/u/ez.yaml'') demo_world)) MARKER
       = Some ''1''"
  using activate_env_marker_before_exec [of demo_world demo_host "demo_self ''/home/u/ez.yaml''"]
    demo_activate
  by (simp add: demo_world_simps)

section \<open>Creating the environment\<close>

lemma confined_bind:
  assumes m: "confined P m" and k: "\<And>x. confined P (k x)"
  shows "confined P (bind m k)"
  unfolding confined_def
proof
  fix w
  obtain r w1 where mw: "m w = (r, w1)" by (cases "m w")
  from m obtain evs1 where e1: "trace w1 = trace w @ evs1" "list_all P evs1"
    and r1: "\<forall>n. r \<noteq> Exited n"
    unfolding confined_def using mw by (metis fst_conv snd_conv)
  show "\<exists>evs. trace (snd (bind m k w)) = trace w @ evs \<and> list_all P evs
            \<and> (\<forall>n. fst (bind m k w) \<noteq> Exited n)"
  proof (cases r)
    case (Returned x)
    from k [of x] obtain evs2 where e2: "trace (snd (k x w1)) = trace w1 @ evs2"
        "list_all P evs2" and r2: "\<forall>n. fst (k x w1) \<noteq> Exited n"
      unfolding confined_def by blast
    have "bind m k w = k x w1" using mw Returned by (simp add: bind_def)
    with e1 e2 r2 show ?thesis by (intro exI [of _ "evs1 @ evs2"]) simp
  next
    case (Raised e)
    then have "bind m k w = (Raised e, w1)" using mw by (simp add: bind_def)
    with e1 show ?thesis by (intro exI [of _ evs1]) simp
  next
    case (Exited n)
    with r1 show ?thesis by simp
  next
    case (Replaced p av)
    then have "bind m k w = (Replaced p av, w1)" using mw by (simp add: bind_def)
    with e1 show ?thesis by (intro exI [of _ evs1]) simp
  qed
qed

lemma confined_try_except_cpe:
  assumes m: "confined P m" and k: "\<And>e. confined P (k e)"
  shows "confined P (try_except_cpe m k)"
  unfolding confined_def
proof
  fix w
  obtain r w1 where mw: "m w = (r, w1)" by (cases "m w")
  from m obtain evs1 where e1: "trace w1 = trace w @ evs1" "list_all P evs1"
    and r1: "\<forall>n. r \<noteq> Exited n"
    unfolding confined_def using mw by (metis fst_conv snd_conv)
  show "\<exists>evs. trace (snd (try_except_cpe m k w)) = trace w @ evs \<and> list_all P evs
            \<and> (\<forall>n. fst (try_except_cpe m k w) \<noteq> Exited n)"
  proof (cases "\<exists>n. r = Raised (CalledProcessError n)")
    case True
    then obtain n where rn: "r = Raised (CalledProcessError n)" by blast
    from k [of "CalledProcessError n"] obtain evs2
      where e2: "trace (snd (k (CalledProcessError n) w1)) = trace w1 @ evs2" "list_all P evs2"
      and r2: "\<forall>j. fst (k (CalledProcessError n) w1) \<noteq> Exited j"
      unfolding confined_def by blast
    have "try_except_cpe m k w = k (CalledProcessError n) w1"
      using mw rn by (simp add: try_except_cpe_def)
    with e1 e2 r2 show ?thesis by (intro exI [of _ "evs1 @ evs2"]) simp
  next
    case False
    then have "try_except_cpe m k w = (r, w1)"
      using mw by (auto simp: try_except_cpe_def split: outcome.splits exn.splits)
    with e1 r1 show ?thesis by (intro exI [of _ evs1]) simp
  qed
qed

lemma confined_ret: "confined P (ret x)"
  by (simp add: confined_def ret_def)

lemma confined_emit: "P e \<Longrightarrow> confined P (emit e)"
  by (simp add: confined_def emit_def)

lemma confined_subprocess_run: "P (Run args) \<Longrightarrow> confined P (subprocess_run h args)"
  by (auto simp: confined_def subprocess_run_def Let_def split: option.splits proc_result.splits)

lemma confined_for_each: "(\<And>x. confined P (f x)) \<Longrightarrow> confined P (for_each xs f)"
  by (induction xs) (simp_all add: confined_ret confined_bind)

lemma confined_update_core_components:
  "confined (not_creation self) (update_core_components h self)"
  unfolding update_core_components_def Let_def print_def logging_def
  by (intro confined_bind confined_for_each confined_try_except_cpe confined_emit
      confined_subprocess_run)
    (simp_all add: not_creation_def creation_cmd_def)

lemma update_core_components_events:
  obtains evs where "trace (snd (update_core_components h self w)) = trace w @ evs"
    and "list_all (not_creation self) evs"
    and "\<forall>n. fst (update_core_components h self w) \<noteq> Exited n"
  using confined_update_core_components [of self h] unfolding confined_def by blast

lemma create_env_present:
  assumes "fs w (abspath h (cwd w) (envPath self)) \<noteq> None"
  shows "create_env h self w =
           update_core_components h self
             (w\<lparr>trace := trace w @
                [Log INFO (Msg ''Virtual environment already exists at %s'' [PStr (envPath self)]),
                 Print (Msg ''Virtual environment already exists at {}.'' [PStr (envPath self)]),
                 Print (Msg ''Virtual environment is ready: {}'' [PStr (envPath self)])]\<rparr>)"
  using assms by (simp add: create_env_def prog_simps)

lemma create_env_present_events:
  assumes "fs w (abspath h (cwd w) (envPath self)) \<noteq> None"
  obtains evs where
    "emitted w (snd (create_env h self w)) =
       [Log INFO (Msg ''Virtual environment already exists at %s'' [PStr (envPath self)]),
        Print (Msg ''Virtual environment already exists at {}.'' [PStr (envPath self)]),
        Print (Msg ''Virtual environment is ready: {}'' [PStr (envPath self)])] @ evs"
    and "list_all (not_creation self) evs"
    and "\<forall>n. fst (create_env h self w) \<noteq> Exited n"
proof -
  let ?w0 = "w\<lparr>trace := trace w @
                [Log INFO (Msg ''Virtual environment already exists at %s'' [PStr (envPath self)]),
                 Print (Msg ''Virtual environment already exists at {}.'' [PStr (envPath self)]),
                 Print (Msg ''Virtual environment is ready: {}'' [PStr (envPath self)])]\<rparr>"
  obtain evs where e: "trace (snd (update_core_components h self ?w0)) = trace ?w0 @ evs"
      "list_all (not_creation self) evs"
      "\<forall>n. fst (update_core_components h self ?w0) \<noteq> Exited n"
    by (rule update_core_components_events)
  show thesis
    using e create_env_present [OF assms] by (intro that [of evs]) (simp_all add: emitted_def)
qed

lemma create_env_absent_events:
  assumes "fs w (abspath h (cwd w) (envPath self)) = None"
  obtains evs where
    "emitted w (snd (create_env h self w)) =
       [Log INFO (Msg ''Creating virtual environment at %s using Python %s.''
                    [PStr (envPath self), pythonVer self]),
        Print (Msg ''Creating virtual environment at {} using Python {}...''
                 [PStr (envPath self), pythonVer self]),
        creation_cmd self] @ evs"
    and "creation_cmd self \<notin> set evs"
proof -
  let ?args = "[pythonVer self, PStr ''-m'', PStr ''venv'', PStr (envPath self)]"
  let ?pre = "[Log INFO (Msg ''Creating virtual environment at %s using Python %s.''
                    [PStr (envPath self), pythonVer self]),
        Print (Msg ''Creating virtual environment at {} using Python {}...''
                 [PStr (envPath self), pythonVer self])]"
  let ?w2 = "w\<lparr>trace := trace w @ ?pre\<rparr>"
  let ?ready = "Print (Msg ''Virtual environment is ready: {}'' [PStr (envPath self)])"
  have nc: "creation_cmd self \<notin> set evs" if "list_all (not_creation self) evs" for evs
    using that by (auto simp: list_all_iff not_creation_def)
  show thesis
  proof (cases "strs_of ?args")
    case None
    then have "create_env h self w = (Raised TypeError, w\<lparr>trace := trace w @ ?pre @ [Run ?args]\<rparr>)"
      using assms by (simp add: create_env_def prog_simps subprocess_run_def)
    then show thesis
      by (intro that [of "[]"]) (simp_all add: emitted_def creation_cmd_def)
  next
    case (Some av)
    show thesis
    proof (cases "run h av ?w2")
      case (LaunchFailed e)
      then have "emitted w (snd (create_env h self w)) =
          ?pre @ [Run ?args] @
            (case e of
               CalledProcessError n \<Rightarrow>
                 [Log ERROR (Msg ''Failed to create virtual environment: %s'' [PStr (exn_text e)]),
                  Print (Msg ''Failed to create virtual environment.'' [])]
             | _ \<Rightarrow> [])"
        using assms Some
        by (cases e) (simp_all add: create_env_def prog_simps subprocess_run_def emitted_def)
      then show thesis
        by (intro that [of "case e of
               CalledProcessError n \<Rightarrow>
                 [Log ERROR (Msg ''Failed to create virtual environment: %s'' [PStr (exn_text e)]),
                  Print (Msg ''Failed to create virtual environment.'' [])]
             | _ \<Rightarrow> []"])
          (simp_all add: creation_cmd_def split: exn.splits)
    next
      case (Completed n fs')
      show thesis
      proof (cases "n = 0")
        case False
        then have "emitted w (snd (create_env h self w)) =
            ?pre @ [Run ?args] @
              [Log ERROR (Msg ''Failed to create virtual environment: %s''
                            [PStr (exn_text (CalledProcessError n))]),
               Print (Msg ''Failed to create virtual environment.'' [])]"
          using assms Some Completed
          by (simp add: create_env_def prog_simps subprocess_run_def emitted_def)
        then show thesis
          by (intro that [of "[Log ERROR (Msg ''Failed to create virtual environment: %s''
                            [PStr (exn_text (CalledProcessError n))]),
               Print (Msg ''Failed to create virtual environment.'' [])]"])
            (simp_all add: creation_cmd_def)
      next
        case True
        let ?w3 = "w\<lparr>fs := fs', trace := trace w @ ?pre @ [Run ?args, ?ready]\<rparr>"
        have eq: "create_env h self w = update_core_components h self ?w3"
          using assms Some Completed True
          by (simp add: create_env_def prog_simps subprocess_run_def)
        obtain evs where e: "trace (snd (update_core_components h self ?w3)) = trace ?w3 @ evs"
            "list_all (not_creation self) evs"
          by (rule update_core_components_events)
        show thesis
          using e eq nc [of evs]
          by (intro that [of "?ready # evs"]) (simp_all add: emitted_def creation_cmd_def)
      qed
    qed
  qed
qed

lemma create_env_failure:
  assumes "fs w (abspath h (cwd w) (envPath self)) = None"
    and "pythonVer self = PStr py"
    and "run h [py, ''-m'', ''venv'', envPath self]
           (w\<lparr>trace := trace w @
              [Log INFO (Msg ''Creating virtual environment at %s using Python %s.''
                           [PStr (envPath self), pythonVer self]),
               Print (Msg ''Creating virtual environment at {} using Python {}...''
                        [PStr (envPath self), pythonVer self])]\<rparr>) = Completed n fs'"
    and "n \<noteq> 0"
  shows "create_env h self w =
           (Exited 1,
            w\<lparr>fs := fs',
              trace := trace w @
                [Log INFO (Msg ''Creating virtual environment at %s using Python %s.''
                             [PStr (envPath self), pythonVer self]),
                 Print (Msg ''Creating virtual environment at {} using Python {}...''
                          [PStr (envPath self), pythonVer self]),
                 creation_cmd self,
                 Log ERROR (Msg ''Failed to create virtual environment: %s''
                              [PStr (exn_text (CalledProcessError n))]),
                 Print (Msg ''Failed to create virtual environment.'' [])]\<rparr>)"
  using assms
  by (simp add: create_env_def prog_simps subprocess_run_def strs_of_simps creation_cmd_def)

lemma create_env_success:
  assumes "fs w (abspath h (cwd w) (envPath self)) = None"
    and "pythonVer self = PStr py"
    and "run h [py, ''-m'', ''venv'', envPath self]
           (w\<lparr>trace := trace w @
              [Log INFO (Msg ''Creating virtual environment at %s using Python %s.''
                [PStr (envPath self), pythonVer self]),
               Print (Msg ''Creating virtual environment at {} using Python {}...''
                [PStr (envPath self), pythonVer self])]\<rparr>) = Completed 0 fs'"
  shows "create_env h self w =
           update_core_components h self
             (w\<lparr>fs := fs',
              trace := trace w @
                [Log INFO (Msg ''Creating virtual environment at %s using Python %s.''
                [PStr (envPath self), pythonVer self]),
                 Print (Msg ''Creating virtual environment at {} using Python {}...''
                [PStr (envPath self), pythonVer self]),
                 creation_cmd self,
                 Print (Msg ''Virtual environment is ready: {}'' [PStr (envPath self)])]\<rparr>)"
  using assms
  by (simp add: create_env_def prog_simps subprocess_run_def strs_of_simps creation_cmd_def)

lemma create_env_launch_failed:
  assumes "fs w (abspath h (cwd w) (envPath self)) = None"
    and "pythonVer self = PStr py"
    and "run h [py, ''-m'', ''venv'', envPath self]
           (w\<lparr>trace := trace w @
              [Log INFO (Msg ''Creating virtual environment at %s using Python %s.''
                [PStr (envPath self), pythonVer self]),
               Print (Msg ''Creating virtual environment at {} using Python {}...''
                [PStr (envPath self), pythonVer self])]\<rparr>) = LaunchFailed e"
    and "\<forall>k. e \<noteq> CalledProcessError k"
  shows "create_env h self w =
           (Raised e,
            w\<lparr>trace := trace w @
                [Log INFO (Msg ''Creating virtual environment at %s using Python %s.''
                [PStr (envPath self), pythonVer self]),
                 Print (Msg ''Creating virtual environment at {} using Python {}...''
                [PStr (envPath self), pythonVer self]),
                 creation_cmd self]\<rparr>)"
  using assms
  by (cases e)
    (simp_all add: create_env_def prog_simps subprocess_run_def strs_of_simps creation_cmd_def)

lemma create_env_not_a_string:
  assumes "fs w (abspath h (cwd w) (envPath self)) = None"
    and "\<forall>py. pythonVer self \<noteq> PStr py"
  shows "create_env h self w =
           (Raised TypeError,
            w\<lparr>trace := trace w @
                [Log INFO (Msg ''Creating virtual environment at %s using Python %s.''
                [PStr (envPath self), pythonVer self]),
                 Print (Msg ''Creating virtual environment at {} using Python {}...''
                [PStr (envPath self), pythonVer self]),
                 creation_cmd self]\<rparr>)"
proof -
  have "strs_of [pythonVer self, PStr ''-m'', PStr ''venv'', PStr (envPath self)] = None"
    using assms(2) by (cases "pythonVer self") (simp_all add: strs_of_def)
  then show ?thesis
    using assms(1)
    by (simp add: create_env_def prog_simps subprocess_run_def creation_cmd_def)
qed

text \<open>
  Claim C3. \<^verbatim>\<open>create_env\<close> calls \<^verbatim>\<open>subprocess.run\<close> with the creation command (the resolved
  interpreter, \<^verbatim>\<open>-m venv\<close>, the environment path) exactly once when the environment root does
  not exist and not at all when it exists. When the root exists, it reports that the
  environment already exists, does not report a failed creation, does not end the process
  and goes on with the update of the core components. When the root does not exist: if
  the creation command exits with a non-zero status, \<^verbatim>\<open>create_env\<close>, and with it
  \<^verbatim>\<open>setup_env\<close>, ends the process with exit code 1 right after reporting the failure; if it
  exits with status 0, \<^verbatim>\<open>create_env\<close> does not end the process but goes on, on the file
  system that the command left, with the update of the core components; if the command
  cannot be launched, the error of the operating system is raised to the caller; and if
  the resolved interpreter is not a string, \<^verbatim>\<open>subprocess.run\<close> raises a \<^verbatim>\<open>TypeError\<close>.
\<close>

theorem create_env_invocation:
  "count_list (emitted w (snd (create_env h self w))) (creation_cmd self) =
     (if fs w (abspath h (cwd w) (envPath self)) = None then 1 else 0)
   \<and> (fs w (abspath h (cwd w) (envPath self)) \<noteq> None \<longrightarrow>
        create_env h self w =
          update_core_components h self
             (w\<lparr>trace := trace w @
                [Log INFO (Msg ''Virtual environment already exists at %s'' [PStr (envPath self)]),
                 Print (Msg ''Virtual environment already exists at {}.'' [PStr (envPath self)]),
                 Print (Msg ''Virtual environment is ready: {}'' [PStr (envPath self)])]\<rparr>)
        \<and> Print (Msg ''Virtual environment already exists at {}.'' [PStr (envPath self)])
          \<in> set (emitted w (snd (create_env h self w)))
        \<and> Print (Msg ''Failed to create virtual environment.'' [])
          \<notin> set (emitted w (snd (create_env h self w)))
        \<and> (\<forall>n. fst (create_env h self w) \<noteq> Exited n))
   \<and> (fs w (abspath h (cwd w) (envPath self)) = None \<and> pythonVer self = PStr py
        \<and> run h [py, ''-m'', ''venv'', envPath self]
           (w\<lparr>trace := trace w @
              [Log INFO (Msg ''Creating virtual environment at %s using Python %s.''
                [PStr (envPath self), pythonVer self]),
               Print (Msg ''Creating virtual environment at {} using Python {}...''
                [PStr (envPath self), pythonVer self])]\<rparr>) = Completed n fs'
        \<and> n \<noteq> 0 \<longrightarrow>
        create_env h self w =
          (Exited 1,
            w\<lparr>fs := fs',
              trace := trace w @
                [Log INFO (Msg ''Creating virtual environment at %s using Python %s.''
                [PStr (envPath self), pythonVer self]),
                 Print (Msg ''Creating virtual environment at {} using Python {}...''
                [PStr (envPath self), pythonVer self]),
                 creation_cmd self,
                 Log ERROR (Msg ''Failed to create virtual environment: %s''
                [PStr (exn_text (CalledProcessError n))]),
                 Print (Msg ''Failed to create virtual environment.'' [])]\<rparr>)
        \<and> setup_env h self w =
          (Exited 1,
            w\<lparr>fs := fs',
              trace := trace w @
                [Log INFO (Msg ''Creating virtual environment at %s using Python %s.''
                [PStr (envPath self), pythonVer self]),
                 Print (Msg ''Creating virtual environment at {} using Python {}...''
                [PStr (envPath self), pythonVer self]),
                 creation_cmd self,
                 Log ERROR (Msg ''Failed to create virtual environment: %s''
                [PStr (exn_text (CalledProcessError n))]),
                 Print (Msg ''Failed to create virtual environment.'' [])]\<rparr>))
   \<and> (fs w (abspath h (cwd w) (envPath self)) = None \<and> pythonVer self = PStr py
        \<and> run h [py, ''-m'', ''venv'', envPath self]
           (w\<lparr>trace := trace w @
              [Log INFO (Msg ''Creating virtual environment at %s using Python %s.''
                [PStr (envPath self), pythonVer self]),
               Print (Msg ''Creating virtual environment at {} using Python {}...''
                [PStr (envPath self), pythonVer self])]\<rparr>) = Completed 0 fs' \<longrightarrow>
        create_env h self w =
          update_core_components h self
             (w\<lparr>fs := fs',
              trace := trace w @
                [Log INFO (Msg ''Creating virtual environment at %s using Python %s.''
                [PStr (envPath self), pythonVer self]),
                 Print (Msg ''Creating virtual environment at {} using Python {}...''
                [PStr (envPath self), pythonVer self]),
                 creation_cmd self,
                 Print (Msg ''Virtual environment is ready: {}'' [PStr (envPath self)])]\<rparr>)
        \<and> (\<forall>k. fst (create_env h self w) \<noteq> Exited k))
   \<and> (fs w (abspath h (cwd w) (envPath self)) = None \<and> pythonVer self = PStr py
        \<and> run h [py, ''-m'', ''venv'', envPath self]
           (w\<lparr>trace := trace w @
              [Log INFO (Msg ''Creating virtual environment at %s using Python %s.''
                [PStr (envPath self), pythonVer self]),
               Print (Msg ''Creating virtual environment at {} using Python {}...''
                [PStr (envPath self), pythonVer self])]\<rparr>) = LaunchFailed e
        \<and> (\<forall>k. e \<noteq> CalledProcessError k) \<longrightarrow>
        create_env h self w =
          (Raised e,
            w\<lparr>trace := trace w @
                [Log INFO (Msg ''Creating virtual environment at %s using Python %s.''
                [PStr (envPath self), pythonVer self]),
                 Print (Msg ''Creating virtual environment at {} using Python {}...''
                [PStr (envPath self), pythonVer self]),
                 creation_cmd self]\<rparr>))
   \<and> (fs w (abspath h (cwd w) (envPath self)) = None \<and> (\<forall>py. pythonVer self \<noteq> PStr py) \<longrightarrow>
        create_env h self w =
          (Raised TypeError,
            w\<lparr>trace := trace w @
                [Log INFO (Msg ''Creating virtual environment at %s using Python %s.''
                [PStr (envPath self), pythonVer self]),
                 Print (Msg ''Creating virtual environment at {} using Python {}...''
                [PStr (envPath self), pythonVer self]),
                 creation_cmd self]\<rparr>))"
proof (intro conjI impI)
  show "count_list (emitted w (snd (create_env h self w))) (creation_cmd self) =
     (if fs w (abspath h (cwd w) (envPath self)) = None then 1 else 0)"
  proof (cases "fs w (abspath h (cwd w) (envPath self)) = None")
    case True
    then obtain evs where "emitted w (snd (create_env h self w)) =
       [Log INFO (Msg ''Creating virtual environment at %s using Python %s.''
                [PStr (envPath self), pythonVer self]),
        Print (Msg ''Creating virtual environment at {} using Python {}...''
                [PStr (envPath self), pythonVer self]),
        creation_cmd self] @ evs" and "creation_cmd self \<notin> set evs"
      by (rule create_env_absent_events)
    with True show ?thesis by (simp add: creation_cmd_def count_list_0_iff)
  next
    case False
    then obtain evs where "emitted w (snd (create_env h self w)) =
       [Log INFO (Msg ''Virtual environment already exists at %s'' [PStr (envPath self)]),
        Print (Msg ''Virtual environment already exists at {}.'' [PStr (envPath self)]),
        Print (Msg ''Virtual environment is ready: {}'' [PStr (envPath self)])] @ evs"
      and "list_all (not_creation self) evs"
      by (rule create_env_present_events)
    moreover from this have "creation_cmd self \<notin> set evs"
      by (auto simp: list_all_iff not_creation_def)
    ultimately show ?thesis using False by (simp add: creation_cmd_def count_list_0_iff)
  qed
next
  assume ex: "fs w (abspath h (cwd w) (envPath self)) \<noteq> None"
  then obtain evs where ev: "emitted w (snd (create_env h self w)) =
       [Log INFO (Msg ''Virtual environment already exists at %s'' [PStr (envPath self)]),
        Print (Msg ''Virtual environment already exists at {}.'' [PStr (envPath self)]),
        Print (Msg ''Virtual environment is ready: {}'' [PStr (envPath self)])] @ evs"
      and nc: "list_all (not_creation self) evs"
      and ne: "\<forall>n. fst (create_env h self w) \<noteq> Exited n"
    by (rule create_env_present_events)
  show "create_env h self w =
          update_core_components h self
             (w\<lparr>trace := trace w @
                [Log INFO (Msg ''Virtual environment already exists at %s'' [PStr (envPath self)]),
                 Print (Msg ''Virtual environment already exists at {}.'' [PStr (envPath self)]),
                 Print (Msg ''Virtual environment is ready: {}'' [PStr (envPath self)])]\<rparr>)"
    using ex by (rule create_env_present)
  show "Print (Msg ''Virtual environment already exists at {}.'' [PStr (envPath self)])
          \<in> set (emitted w (snd (create_env h self w)))"
    using ev by simp
  show "Print (Msg ''Failed to create virtual environment.'' [])
          \<notin> set (emitted w (snd (create_env h self w)))"
    using ev nc by (auto simp: list_all_iff not_creation_def)
  show "\<forall>n. fst (create_env h self w) \<noteq> Exited n"
    using ne .
next
  assume a: "fs w (abspath h (cwd w) (envPath self)) = None \<and> pythonVer self = PStr py
        \<and> run h [py, ''-m'', ''venv'', envPath self]
           (w\<lparr>trace := trace w @
              [Log INFO (Msg ''Creating virtual environment at %s using Python %s.''
                [PStr (envPath self), pythonVer self]),
               Print (Msg ''Creating virtual environment at {} using Python {}...''
                [PStr (envPath self), pythonVer self])]\<rparr>) = Completed n fs'
        \<and> n \<noteq> 0"
  then have c: "create_env h self w =
          (Exited 1,
            w\<lparr>fs := fs',
              trace := trace w @
                [Log INFO (Msg ''Creating virtual environment at %s using Python %s.''
                [PStr (envPath self), pythonVer self]),
                 Print (Msg ''Creating virtual environment at {} using Python {}...''
                [PStr (envPath self), pythonVer self]),
                 creation_cmd self,
                 Log ERROR (Msg ''Failed to create virtual environment: %s''
                [PStr (exn_text (CalledProcessError n))]),
                 Print (Msg ''Failed to create virtual environment.'' [])]\<rparr>)"
    by (intro create_env_failure) blast+
  then show "create_env h self w =
          (Exited 1,
            w\<lparr>fs := fs',
              trace := trace w @
                [Log INFO (Msg ''Creating virtual environment at %s using Python %s.''
                [PStr (envPath self), pythonVer self]),
                 Print (Msg ''Creating virtual environment at {} using Python {}...''
                [PStr (envPath self), pythonVer self]),
                 creation_cmd self,
                 Log ERROR (Msg ''Failed to create virtual environment: %s''
                [PStr (exn_text (CalledProcessError n))]),
                 Print (Msg ''Failed to create virtual environment.'' [])]\<rparr>)" .
  from c show "setup_env h self w =
          (Exited 1,
            w\<lparr>fs := fs',
              trace := trace w @
                [Log INFO (Msg ''Creating virtual environment at %s using Python %s.''
                [PStr (envPath self), pythonVer self]),
                 Print (Msg ''Creating virtual environment at {} using Python {}...''
                [PStr (envPath self), pythonVer self]),
                 creation_cmd self,
                 Log ERROR (Msg ''Failed to create virtual environment: %s''
                [PStr (exn_text (CalledProcessError n))]),
                 Print (Msg ''Failed to create virtual environment.'' [])]\<rparr>)"
    by (simp add: setup_env_def bind_def)
next
  assume a: "fs w (abspath h (cwd w) (envPath self)) = None \<and> pythonVer self = PStr py
        \<and> run h [py, ''-m'', ''venv'', envPath self]
           (w\<lparr>trace := trace w @
              [Log INFO (Msg ''Creating virtual environment at %s using Python %s.''
                [PStr (envPath self), pythonVer self]),
               Print (Msg ''Creating virtual environment at {} using Python {}...''
                [PStr (envPath self), pythonVer self])]\<rparr>) = Completed 0 fs'"
  then have c: "create_env h self w =
          update_core_components h self
             (w\<lparr>fs := fs',
              trace := trace w @
                [Log INFO (Msg ''Creating virtual environment at %s using Python %s.''
                [PStr (envPath self), pythonVer self]),
                 Print (Msg ''Creating virtual environment at {} using Python {}...''
                [PStr (envPath self), pythonVer self]),
                 creation_cmd self,
                 Print (Msg ''Virtual environment is ready: {}'' [PStr (envPath self)])]\<rparr>)"
    by (intro create_env_success) blast+
  then show "create_env h self w =
          update_core_components h self
             (w\<lparr>fs := fs',
              trace := trace w @
                [Log INFO (Msg ''Creating virtual environment at %s using Python %s.''
                [PStr (envPath self), pythonVer self]),
                 Print (Msg ''Creating virtual environment at {} using Python {}...''
                [PStr (envPath self), pythonVer self]),
                 creation_cmd self,
                 Print (Msg ''Virtual environment is ready: {}'' [PStr (envPath self)])]\<rparr>)" .
  obtain evs where "\<forall>k. fst (update_core_components h self
             (w\<lparr>fs := fs',
              trace := trace w @
                [Log INFO (Msg ''Creating virtual environment at %s using Python %s.''
                [PStr (envPath self), pythonVer self]),
                 Print (Msg ''Creating virtual environment at {} using Python {}...''
                [PStr (envPath self), pythonVer self]),
                 creation_cmd self,
                 Print (Msg ''Virtual environment is ready: {}'' [PStr (envPath self)])]\<rparr>)) \<noteq> Exited k"
    by (rule update_core_components_events) blast
  with c show "\<forall>k. fst (create_env h self w) \<noteq> Exited k" by simp
next
  assume a: "fs w (abspath h (cwd w) (envPath self)) = None \<and> pythonVer self = PStr py
        \<and> run h [py, ''-m'', ''venv'', envPath self]
           (w\<lparr>trace := trace w @
              [Log INFO (Msg ''Creating virtual environment at %s using Python %s.''
                [PStr (envPath self), pythonVer self]),
               Print (Msg ''Creating virtual environment at {} using Python {}...''
                [PStr (envPath self), pythonVer self])]\<rparr>) = LaunchFailed e
        \<and> (\<forall>k. e \<noteq> CalledProcessError k)"
  then show "create_env h self w =
          (Raised e,
            w\<lparr>trace := trace w @
                [Log INFO (Msg ''Creating virtual environment at %s using Python %s.''
                [PStr (envPath self), pythonVer self]),
                 Print (Msg ''Creating virtual environment at {} using Python {}...''
                [PStr (envPath self), pythonVer self]),
                 creation_cmd self]\<rparr>)"
    by (intro create_env_launch_failed) blast+
next
  assume "fs w (abspath h (cwd w) (envPath self)) = None \<and> (\<forall>py. pythonVer self \<noteq> PStr py)"
  then show "create_env h self w =
          (Raised TypeError,
            w\<lparr>trace := trace w @
                [Log INFO (Msg ''Creating virtual environment at %s using Python %s.''
                [PStr (envPath self), pythonVer self]),
                 Print (Msg ''Creating virtual environment at {} using Python {}...''
                [PStr (envPath self), pythonVer self]),
                 creation_cmd self]\<rparr>)"
    by (intro create_env_not_a_string) blast+
qed

lemma demo_env_paths:
  "posix_abspath ''/home/u'' ''/home/u/proj/.venv'' = ''/home/u/proj/.venv''"
  by code_simp

lemma failing_host_simps:
  "abspath failing_host = posix_abspath"
  "run failing_host = (\<lambda>av w. Completed 1 (fs w))"
  by (simp_all add: failing_host_def demo_host_def)

lemma demo_self_fields:
  "envPath (demo_self cf) = ''/home/u/proj/.venv''"
  "pythonVer (demo_self cf) = PStr ''/usr/bin/python3''"
  "envDir (demo_self cf) = ''/home/u/proj''"
  by (simp_all add: demo_self_def)

lemma demo_create:
  "fst (create_env demo_host (demo_self ''/home/u/ez.yaml'') demo_world) = Returned ()"
  by code_simp

text \<open>
  In the example world the root is missing: with an interpreter whose \<^verbatim>\<open>venv\<close> module
  fails the process ends with exit code 1, and with one that succeeds \<^verbatim>\<open>create_env\<close>
  returns. With the root in place no creation command is run.
\<close>

theorem create_env_invocation_witness:
  "fs demo_world
      (abspath failing_host (cwd demo_world) (envPath (demo_self ''/home/u/ez.yaml''))) = None
   \<and> run failing_host [''/usr/bin/python3'', ''-m'', ''venv'', ''/home/u/proj/.venv''] demo_world
       = Completed 1 demo_fs
   \<and> count_list
        (emitted demo_world (snd (create_env failing_host (demo_self ''/home/u/ez.yaml'') demo_world)))
        (creation_cmd (demo_self ''/home/u/ez.yaml'')) = 1
   \<and> fst (create_env failing_host (demo_self ''/home/u/ez.yaml'') demo_world) = Exited 1
   \<and> fst (setup_env failing_host (demo_self ''/home/u/ez.yaml'') demo_world) = Exited 1
   \<and> run demo_host [''/usr/bin/python3'', ''-m'', ''venv'', ''/home/u/proj/.venv''] demo_world
       = Completed 0 demo_fs
   \<and> count_list
        (emitted demo_world (snd (create_env demo_host (demo_self ''/home/u/ez.yaml'') demo_world)))
        (creation_cmd (demo_self ''/home/u/ez.yaml'')) = 1
   \<and> fst (create_env demo_host (demo_self ''/home/u/ez.yaml'') demo_world) \<noteq> Exited 1
   \<and> fst (create_env demo_host (demo_self ''/home/u/ez.yaml'') demo_world) = Returned ()
   \<and> fs (demo_world\<lparr>fs := demo_fs(''/home/u/proj/.venv'' \<mapsto> Dir [''bin''])\<rparr>)
        (abspath demo_host (cwd demo_world) (envPath (demo_self ''/home/u/ez.yaml'')))
       = Some (Dir [''bin''])
   \<and> count_list
        (emitted (demo_world\<lparr>fs := demo_fs(''/home/u/proj/.venv'' \<mapsto> Dir [''bin''])\<rparr>)
           (snd (create_env demo_host (demo_self ''/home/u/ez.yaml'')
                   (demo_world\<lparr>fs := demo_fs(''/home/u/proj/.venv'' \<mapsto> Dir [''bin''])\<rparr>))))
        (creation_cmd (demo_self ''/home/u/ez.yaml'')) = 0
   \<and> Print (Msg ''Virtual environment already exists at {}.'' [PStr ''/home/u/proj/.venv''])
       \<in> set (emitted (demo_world\<lparr>fs := demo_fs(''/home/u/proj/.venv'' \<mapsto> Dir [''bin''])\<rparr>)
           (snd (create_env demo_host (demo_self ''/home/u/ez.yaml'')
                   (demo_world\<lparr>fs := demo_fs(''/home/u/proj/.venv'' \<mapsto> Dir [''bin''])\<rparr>))))"
proof -
  let ?s = "demo_self ''/home/u/ez.yaml''"
  let ?wx = "demo_world\<lparr>fs := demo_fs(''/home/u/proj/.venv'' \<mapsto> Dir [''bin''])\<rparr>"
  note failing = create_env_invocation
      [of demo_world failing_host ?s "''/usr/bin/python3''" 1 demo_fs]
  note succeeding = create_env_invocation
      [of demo_world demo_host ?s "''/usr/bin/python3''" 1 demo_fs]
  note existing = create_env_invocation [of ?wx demo_host ?s]
  have a1: "fs demo_world (abspath failing_host (cwd demo_world) (envPath ?s)) = None"
    by (simp add: failing_host_simps demo_world_simps demo_env_paths demo_fs_def
        demo_self_fields)
  have a2: "fs demo_world (abspath demo_host (cwd demo_world) (envPath ?s)) = None"
    by (simp add: demo_host_simps demo_world_simps demo_env_paths demo_fs_def
        demo_self_fields)
  have p1: "fs ?wx (abspath demo_host (cwd demo_world) (envPath ?s)) = Some (Dir [''bin''])"
    by (simp add: demo_host_simps demo_world_simps demo_env_paths demo_self_fields)
  have p2: "fs ?wx (abspath demo_host (cwd ?wx) (envPath ?s)) \<noteq> None"
    by (simp add: demo_host_simps demo_world_simps demo_env_paths demo_self_fields)
  have r1: "run failing_host [''/usr/bin/python3'', ''-m'', ''venv'', ''/home/u/proj/.venv'']
              demo_world = Completed 1 demo_fs"
    by (simp add: failing_host_simps demo_world_simps)
  have r2: "run demo_host [''/usr/bin/python3'', ''-m'', ''venv'', ''/home/u/proj/.venv'']
              demo_world = Completed 0 demo_fs"
    by (simp add: demo_host_simps demo_world_simps)
  have c1: "count_list (emitted demo_world (snd (create_env failing_host ?s demo_world)))
              (creation_cmd ?s) = 1"
    using conjunct1 [OF failing] a1 by simp
  have c2: "fst (create_env failing_host ?s demo_world) = Exited 1"
    using failing a1 by (auto simp: failing_host_simps demo_self_fields demo_world_simps)
  have c3: "fst (setup_env failing_host ?s demo_world) = Exited 1"
    using failing a1 by (auto simp: failing_host_simps demo_self_fields demo_world_simps)
  have c4: "count_list (emitted demo_world (snd (create_env demo_host ?s demo_world)))
              (creation_cmd ?s) = 1"
    using conjunct1 [OF succeeding] a2 by simp
  have c5: "fst (create_env demo_host ?s demo_world) \<noteq> Exited 1"
    using succeeding a2 by (auto simp: demo_host_simps demo_self_fields demo_world_simps)
  have c6: "count_list (emitted ?wx (snd (create_env demo_host ?s ?wx))) (creation_cmd ?s) = 0"
    using conjunct1 [OF existing] p2 by simp
  have c7: "Print (Msg ''Virtual environment already exists at {}.'' [PStr ''/home/u/proj/.venv''])
              \<in> set (emitted ?wx (snd (create_env demo_host ?s ?wx)))"
    using existing p2 by (auto simp: demo_self_fields)
  show ?thesis
    using a1 r1 c1 c2 c3 r2 c4 c5 demo_create p1 c6 c7 by blast
qed

section \<open>The answers to the confirmation prompts\<close>

lemma not_declined_empty: "\<not> declined []"
  by (simp add: declined_def lower_def)

lemma lower_char_space: "is_space c \<Longrightarrow> lower_char c = c \<and> c \<noteq> CHR ''y''"
  unfolding is_space_def by (elim disjE | simp add: lower_char_def)+

lemma calm_bind:
  assumes m: "calm m" and k: "\<And>x. calm (k x)"
  shows "calm (bind m k)"
  unfolding calm_def
proof (intro allI impI)
  fix w :: world
  assume I: "\<forall>a\<in>set (stdin w). a = []"
  obtain r w1 where mw: "m w = (r, w1)" by (cases "m w")
  from m I mw have I1: "\<forall>a\<in>set (stdin w1). a = []" and r1: "\<forall>n. r \<noteq> Exited n"
    unfolding calm_def by (metis snd_conv, metis fst_conv)
  show "(\<forall>a\<in>set (stdin (snd (bind m k w))). a = []) \<and> (\<forall>n. fst (bind m k w) \<noteq> Exited n)"
  proof (cases r)
    case (Returned x)
    then have eq: "bind m k w = k x w1" using mw by (simp add: bind_def)
    from k [of x] I1
    have "(\<forall>a\<in>set (stdin (snd (k x w1))). a = []) \<and> (\<forall>n. fst (k x w1) \<noteq> Exited n)"
      unfolding calm_def by blast
    with eq show ?thesis by simp
  next
    case (Raised e)
    then have "bind m k w = (Raised e, w1)" using mw by (simp add: bind_def)
    with I1 show ?thesis by simp
  next
    case (Exited n)
    with r1 show ?thesis by simp
  next
    case (Replaced p av)
    then have "bind m k w = (Replaced p av, w1)" using mw by (simp add: bind_def)
    with I1 show ?thesis by simp
  qed
qed

lemma calm_input_bind:
  assumes k: "calm (k [])"
  shows "calm (bind (input ms) k)"
  unfolding calm_def
proof (intro allI impI)
  fix w :: world
  assume I: "\<forall>a\<in>set (stdin w). a = []"
  show "(\<forall>a\<in>set (stdin (snd (bind (input ms) k w))). a = [])
        \<and> (\<forall>n. fst (bind (input ms) k w) \<noteq> Exited n)"
  proof (cases "stdin w")
    case Nil
    then have "bind (input ms) k w = (Raised EOFError, w\<lparr>trace := trace w @ [Prompt ms]\<rparr>)"
      by (simp add: bind_def input_def)
    with I show ?thesis by simp
  next
    case (Cons a rest)
    with I have a: "a = []" and rest: "\<forall>a\<in>set rest. a = []" by simp_all
    let ?w1 = "w\<lparr>stdin := rest, trace := trace w @ [Prompt ms]\<rparr>"
    have eq: "bind (input ms) k w = k [] ?w1"
      using Cons a by (simp add: bind_def input_def)
    have "\<forall>a\<in>set (stdin ?w1). a = []" using rest by simp
    with k have "(\<forall>a\<in>set (stdin (snd (k [] ?w1))). a = []) \<and> (\<forall>n. fst (k [] ?w1) \<noteq> Exited n)"
      unfolding calm_def by blast
    with eq show ?thesis by simp
  qed
qed

lemma calm_prims:
  "calm (ret x)"
  "calm (print ms)"
  "calm getcwd"
  "calm (path_exists h q)"
  "calm (listdir h q)"
  "calm (makedirs h q)"
  "calm (chdir h q)"
  by (auto simp: calm_def prog_simps Let_def split: option.splits node.splits)

lemma calm_if: "(c \<Longrightarrow> calm a) \<Longrightarrow> (\<not> c \<Longrightarrow> calm b) \<Longrightarrow> calm (if c then a else b)"
  by simp

lemma calm_init_env_prepare: "calm (init_env_prepare h env_dir config_file)"
  unfolding init_env_prepare_def Let_def
  by (simp only: not_declined_empty if_False | rule calm_input_bind | rule calm_bind
      | rule calm_if | rule calm_prims)+

lemma declined_whitespace:
  assumes "answer \<noteq> []" and "\<forall>c\<in>set answer. is_space c"
  shows "declined answer"
proof (cases answer)
  case Nil
  with assms show ?thesis by simp
next
  case (Cons c cs)
  with assms have "is_space c" by simp
  then have "lower_char c = c \<and> c \<noteq> CHR ''y''" by (rule lower_char_space)
  with Cons show ?thesis by (simp add: declined_def lower_def)
qed

text \<open>
  Claim C9, as amended. At both confirmation prompts of \<^verbatim>\<open>init_env\<close> the empty answer is
  affirmative and the preparation goes on to its end. After the prompt for a non-empty
  directory the directory is entered; without a settings document given, the preparation
  returns the directory and the default document in it, and with a document given that
  does not exist yet, the directory and that document. After the prompt for an existing
  settings document the preparation returns the directory and that document, whether no
  directory was given, the directory was empty, it was not empty and confirmed with an
  empty answer too, or it was missing and has been created. As long as every answer given
  is empty, the preparation never ends the process. An answer of white space only is not
  affirmative: the source does not strip the answer, so it is declined like any other
  text, and a declined answer at either prompt ends the process with exit code 0 (after
  the directory has been entered, or created and entered, when the prompt is the one for
  the settings document).
\<close>

theorem empty_answer_affirmative:
  "(stdin w = [] # rest \<and> opt_truthy env_dir
      \<and> fs w (abspath h (cwd w) (opt_val env_dir)) = Some (Dir entries) \<and> entries \<noteq> []
      \<and> \<not> opt_truthy config_file \<longrightarrow>
      init_env_prepare h env_dir config_file w =
        (Returned (opt_val env_dir,
                   path_join h (abspath h (cwd w) (opt_val env_dir)) ''ezvenv.yaml''),
         w\<lparr>cwd := abspath h (cwd w) (opt_val env_dir), stdin := rest,
           trace := trace w @
             [Prompt (Msg ''Directory '{}' is not empty. Are you sure you want to initialize it? (Y/n): ''
                [PStr (opt_val env_dir)])]\<rparr>))
   \<and> (stdin w = [] # rest \<and> \<not> opt_truthy env_dir \<and> opt_truthy config_file
      \<and> fs w (abspath h (cwd w) (opt_val config_file)) \<noteq> None \<longrightarrow>
      init_env_prepare h env_dir config_file w =
        (Returned (cwd w, opt_val config_file),
         w\<lparr>stdin := rest,
           trace := trace w @
             [Prompt (Msg ''Configuration file '{}' already exists. Overwrite? (Y/n): ''
                [PStr (opt_val config_file)])]\<rparr>))
   \<and> ((\<forall>a\<in>set (stdin w). a = []) \<longrightarrow>
        (\<forall>n. fst (init_env_prepare h env_dir config_file w) \<noteq> Exited n))
   \<and> (answer \<noteq> [] \<and> (\<forall>c\<in>set answer. is_space c) \<longrightarrow> declined answer)
   \<and> (stdin w = [] # rest \<and> opt_truthy env_dir
      \<and> fs w (abspath h (cwd w) (opt_val env_dir)) = Some (Dir []) \<and> opt_truthy config_file
      \<and> fs w (abspath h (abspath h (cwd w) (opt_val env_dir)) (opt_val config_file)) \<noteq> None \<longrightarrow>
      init_env_prepare h env_dir config_file w =
        (Returned (opt_val env_dir, opt_val config_file),
         w\<lparr>cwd := abspath h (cwd w) (opt_val env_dir), stdin := rest,
           trace := trace w @
             [Prompt (Msg ''Configuration file '{}' already exists. Overwrite? (Y/n): ''
                [PStr (opt_val config_file)])]\<rparr>))
   \<and> (stdin w = [] # [] # rest \<and> opt_truthy env_dir
      \<and> fs w (abspath h (cwd w) (opt_val env_dir)) = Some (Dir entries) \<and> entries \<noteq> []
      \<and> opt_truthy config_file
      \<and> fs w (abspath h (abspath h (cwd w) (opt_val env_dir)) (opt_val config_file)) \<noteq> None \<longrightarrow>
      init_env_prepare h env_dir config_file w =
        (Returned (opt_val env_dir, opt_val config_file),
         w\<lparr>cwd := abspath h (cwd w) (opt_val env_dir), stdin := rest,
           trace := trace w @
             [Prompt (Msg ''Directory '{}' is not empty. Are you sure you want to initialize it? (Y/n): ''
                [PStr (opt_val env_dir)]),
              Prompt (Msg ''Configuration file '{}' already exists. Overwrite? (Y/n): ''
                [PStr (opt_val config_file)])]\<rparr>))
   \<and> (stdin w = [] # rest \<and> opt_truthy env_dir
      \<and> fs w (abspath h (cwd w) (opt_val env_dir)) = None
      \<and> makedirs_error h (abspath h (cwd w) (opt_val env_dir))
            (w\<lparr>trace := trace w @
               [Print (Msg ''Directory '{}' does not exist. Creating it...'' [PStr (opt_val env_dir)])]\<rparr>) = None
      \<and> opt_truthy config_file
      \<and> ((fs w)(abspath h (cwd w) (opt_val env_dir) \<mapsto> Dir []))
            (abspath h (abspath h (cwd w) (opt_val env_dir)) (opt_val config_file)) \<noteq> None \<longrightarrow>
      init_env_prepare h env_dir config_file w =
        (Returned (opt_val env_dir, opt_val config_file),
         w\<lparr>fs := (fs w)(abspath h (cwd w) (opt_val env_dir) \<mapsto> Dir []),
           cwd := abspath h (cwd w) (opt_val env_dir), stdin := rest,
           trace := trace w @
             [Print (Msg ''Directory '{}' does not exist. Creating it...'' [PStr (opt_val env_dir)]),
              Prompt (Msg ''Configuration file '{}' already exists. Overwrite? (Y/n): ''
                [PStr (opt_val config_file)])]\<rparr>))
   \<and> (stdin w = answer # rest \<and> declined answer \<and> opt_truthy env_dir
      \<and> fs w (abspath h (cwd w) (opt_val env_dir)) = Some (Dir entries) \<and> entries \<noteq> [] \<longrightarrow>
      init_env_prepare h env_dir config_file w =
        (Exited 0,
         w\<lparr>stdin := rest,
           trace := trace w @
             [Prompt (Msg ''Directory '{}' is not empty. Are you sure you want to initialize it? (Y/n): ''
                [PStr (opt_val env_dir)]),
              Print (Msg ''Initialization aborted.'' [])]\<rparr>))
   \<and> (stdin w = answer # rest \<and> declined answer \<and> \<not> opt_truthy env_dir
      \<and> opt_truthy config_file
      \<and> fs w (abspath h (cwd w) (opt_val config_file)) \<noteq> None \<longrightarrow>
      init_env_prepare h env_dir config_file w =
        (Exited 0,
         w\<lparr>stdin := rest,
           trace := trace w @
             [Prompt (Msg ''Configuration file '{}' already exists. Overwrite? (Y/n): ''
                [PStr (opt_val config_file)]),
              Print (Msg ''Initialization aborted due to existing configuration.'' [])]\<rparr>))
   \<and> (stdin w = answer # rest \<and> declined answer \<and> opt_truthy env_dir
      \<and> fs w (abspath h (cwd w) (opt_val env_dir)) = Some (Dir []) \<and> opt_truthy config_file
      \<and> fs w (abspath h (abspath h (cwd w) (opt_val env_dir)) (opt_val config_file)) \<noteq> None \<longrightarrow>
      init_env_prepare h env_dir config_file w =
        (Exited 0,
         w\<lparr>cwd := abspath h (cwd w) (opt_val env_dir), stdin := rest,
           trace := trace w @
             [Prompt (Msg ''Configuration file '{}' already exists. Overwrite? (Y/n): ''
                [PStr (opt_val config_file)]),
              Print (Msg ''Initialization aborted due to existing configuration.'' [])]\<rparr>))
   \<and> (stdin w = [] # rest \<and> opt_truthy env_dir
      \<and> fs w (abspath h (cwd w) (opt_val env_dir)) = Some (Dir entries) \<and> entries \<noteq> []
      \<and> opt_truthy config_file
      \<and> fs w (abspath h (abspath h (cwd w) (opt_val env_dir)) (opt_val config_file)) = None \<longrightarrow>
      init_env_prepare h env_dir config_file w =
        (Returned (opt_val env_dir, opt_val config_file),
         w\<lparr>cwd := abspath h (cwd w) (opt_val env_dir), stdin := rest,
           trace := trace w @
             [Prompt (Msg ''Directory '{}' is not empty. Are you sure you want to initialize it? (Y/n): ''
                [PStr (opt_val env_dir)])]\<rparr>))
   \<and> (stdin w = [] # answer # rest \<and> declined answer \<and> opt_truthy env_dir
      \<and> fs w (abspath h (cwd w) (opt_val env_dir)) = Some (Dir entries) \<and> entries \<noteq> []
      \<and> opt_truthy config_file
      \<and> fs w (abspath h (abspath h (cwd w) (opt_val env_dir)) (opt_val config_file)) \<noteq> None \<longrightarrow>
      init_env_prepare h env_dir config_file w =
        (Exited 0,
         w\<lparr>cwd := abspath h (cwd w) (opt_val env_dir), stdin := rest,
           trace := trace w @
             [Prompt (Msg ''Directory '{}' is not empty. Are you sure you want to initialize it? (Y/n): ''
                [PStr (opt_val env_dir)]),
              Prompt (Msg ''Configuration file '{}' already exists. Overwrite? (Y/n): ''
                [PStr (opt_val config_file)]),
              Print (Msg ''Initialization aborted due to existing configuration.'' [])]\<rparr>))
   \<and> (stdin w = answer # rest \<and> declined answer \<and> opt_truthy env_dir
      \<and> fs w (abspath h (cwd w) (opt_val env_dir)) = None
      \<and> makedirs_error h (abspath h (cwd w) (opt_val env_dir))
            (w\<lparr>trace := trace w @
               [Print (Msg ''Directory '{}' does not exist. Creating it...'' [PStr (opt_val env_dir)])]\<rparr>) = None
      \<and> opt_truthy config_file
      \<and> ((fs w)(abspath h (cwd w) (opt_val env_dir) \<mapsto> Dir []))
            (abspath h (abspath h (cwd w) (opt_val env_dir)) (opt_val config_file)) \<noteq> None \<longrightarrow>
      init_env_prepare h env_dir config_file w =
        (Exited 0,
         w\<lparr>fs := (fs w)(abspath h (cwd w) (opt_val env_dir) \<mapsto> Dir []),
           cwd := abspath h (cwd w) (opt_val env_dir), stdin := rest,
           trace := trace w @
             [Print (Msg ''Directory '{}' does not exist. Creating it...'' [PStr (opt_val env_dir)]),
              Prompt (Msg ''Configuration file '{}' already exists. Overwrite? (Y/n): ''
                [PStr (opt_val config_file)]),
              Print (Msg ''Initialization aborted due to existing configuration.'' [])]\<rparr>))"
proof (intro conjI impI)
  assume "\<forall>a\<in>set (stdin w). a = []"
  then show "\<forall>n. fst (init_env_prepare h env_dir config_file w) \<noteq> Exited n"
    using calm_init_env_prepare [of h env_dir config_file] unfolding calm_def by blast
next
  assume "answer \<noteq> [] \<and> (\<forall>c\<in>set answer. is_space c)"
  then show "declined answer" using declined_whitespace by blast
qed (simp_all add: init_env_prepare_def prog_simps Let_def not_declined_empty)

lemma demo_prepare_paths:
  "posix_join ''/home/u/proj'' ''ezvenv.yaml'' = ''/home/u/proj/ezvenv.yaml''"
  "posix_abspath ''/home/u/proj'' ''/home/u/ez.yaml'' = ''/home/u/ez.yaml''"
  "posix_abspath ''/home/u'' ''empty'' = ''/home/u/empty''"
  "posix_abspath ''/home/u/empty'' ''/home/u/ez.yaml'' = ''/home/u/ez.yaml''"
  by code_simp+

text \<open>
  The example world with empty answers: the project directory alone; the settings document
  alone; both prompts in a row; the empty directory and the document; a directory that
  is created, and the document. Then a single blank at the first prompt.
\<close>

theorem empty_answer_affirmative_witness:
  "init_env_prepare demo_host (Some ''proj'') None (demo_world\<lparr>stdin := [[]]\<rparr>) =
     (Returned (''proj'', ''/home/u/proj/ezvenv.yaml''),
      demo_world\<lparr>cwd := ''/home/u/proj'', stdin := [],
        trace :=
          [Prompt (Msg ''Directory '{}' is not empty. Are you sure you want to initialize it? (Y/n): ''
                     [PStr ''proj''])]\<rparr>)
   \<and> init_env_prepare demo_host None (Some ''/home/u/ez.yaml'') (demo_world\<lparr>stdin := [[]]\<rparr>) =
     (Returned (''/home/u'', ''/home/u/ez.yaml''),
      demo_world\<lparr>stdin := [],
        trace :=
          [Prompt (Msg ''Configuration file '{}' already exists. Overwrite? (Y/n): ''
                     [PStr ''/home/u/ez.yaml''])]\<rparr>)
   \<and> init_env_prepare demo_host (Some ''proj'') (Some ''/home/u/ez.yaml'')
       (demo_world\<lparr>stdin := [[], []]\<rparr>) =
     (Returned (''proj'', ''/home/u/ez.yaml''),
      demo_world\<lparr>cwd := ''/home/u/proj'', stdin := [],
        trace :=
          [Prompt (Msg ''Directory '{}' is not empty. Are you sure you want to initialize it? (Y/n): ''
                     [PStr ''proj'']),
           Prompt (Msg ''Configuration file '{}' already exists. Overwrite? (Y/n): ''
                     [PStr ''/home/u/ez.yaml''])]\<rparr>)
   \<and> init_env_prepare demo_host (Some ''empty'') (Some ''/home/u/ez.yaml'')
       (demo_world\<lparr>stdin := [[]]\<rparr>) =
     (Returned (''empty'', ''/home/u/ez.yaml''),
      demo_world\<lparr>cwd := ''/home/u/empty'', stdin := [],
        trace :=
          [Prompt (Msg ''Configuration file '{}' already exists. Overwrite? (Y/n): ''
                     [PStr ''/home/u/ez.yaml''])]\<rparr>)
   \<and> init_env_prepare demo_host (Some ''newproj'') (Some ''/home/u/ez.yaml'')
       (demo_world\<lparr>stdin := [[]]\<rparr>) =
     (Returned (''newproj'', ''/home/u/ez.yaml''),
      demo_world\<lparr>fs := demo_fs(''/home/u/newproj'' \<mapsto> Dir []),
        cwd := ''/home/u/newproj'', stdin := [],
        trace :=
          [Print (Msg ''Directory '{}' does not exist. Creating it...'' [PStr ''newproj'']),
           Prompt (Msg ''Configuration file '{}' already exists. Overwrite? (Y/n): ''
                     [PStr ''/home/u/ez.yaml''])]\<rparr>)
   \<and> declined '' ''
   \<and> init_env_prepare demo_host (Some ''proj'') None (demo_world\<lparr>stdin := ['' '']\<rparr>) =
     (Exited 0,
      demo_world\<lparr>stdin := [],
        trace :=
          [Prompt (Msg ''Directory '{}' is not empty. Are you sure you want to initialize it? (Y/n): ''
                     [PStr ''proj'']),
           Print (Msg ''Initialization aborted.'' [])]\<rparr>)"
proof -
  note sims = opt_truthy_def opt_val_def demo_host_simps demo_world_simps demo_paths
    demo_prepare_paths demo_fs_def
  have c1: "init_env_prepare demo_host (Some ''proj'') None (demo_world\<lparr>stdin := [[]]\<rparr>) =
     (Returned (''proj'', ''/home/u/proj/ezvenv.yaml''),
      demo_world\<lparr>cwd := ''/home/u/proj'', stdin := [],
        trace :=
          [Prompt (Msg ''Directory '{}' is not empty. Are you sure you want to initialize it? (Y/n): ''
                     [PStr ''proj''])]\<rparr>)"
    using empty_answer_affirmative
      [where w = "demo_world\<lparr>stdin := [[]]\<rparr>" and rest = "[]" and env_dir = "Some ''proj''"
        and h = demo_host and entries = "[''main.py'']" and config_file = None]
    by (simp add: sims)
  have c2: "init_env_prepare demo_host None (Some ''/home/u/ez.yaml'')
       (demo_world\<lparr>stdin := [[]]\<rparr>) =
     (Returned (''/home/u'', ''/home/u/ez.yaml''),
      demo_world\<lparr>stdin := [],
        trace :=
          [Prompt (Msg ''Configuration file '{}' already exists. Overwrite? (Y/n): ''
                     [PStr ''/home/u/ez.yaml''])]\<rparr>)"
    using empty_answer_affirmative
      [where w = "demo_world\<lparr>stdin := [[]]\<rparr>" and rest = "[]" and env_dir = None
        and h = demo_host and config_file = "Some ''/home/u/ez.yaml''"]
    by (simp add: sims)
  have c3: "init_env_prepare demo_host (Some ''proj'') (Some ''/home/u/ez.yaml'')
       (demo_world\<lparr>stdin := [[], []]\<rparr>) =
     (Returned (''proj'', ''/home/u/ez.yaml''),
      demo_world\<lparr>cwd := ''/home/u/proj'', stdin := [],
        trace :=
          [Prompt (Msg ''Directory '{}' is not empty. Are you sure you want to initialize it? (Y/n): ''
                     [PStr ''proj'']),
           Prompt (Msg ''Configuration file '{}' already exists. Overwrite? (Y/n): ''
                     [PStr ''/home/u/ez.yaml''])]\<rparr>)"
    using empty_answer_affirmative
      [where w = "demo_world\<lparr>stdin := [[], []]\<rparr>" and rest = "[]"
        and env_dir = "Some ''proj''" and h = demo_host and entries = "[''main.py'']"
        and config_file = "Some ''/home/u/ez.yaml''"]
    by (simp add: sims)
  have c4: "init_env_prepare demo_host (Some ''empty'') (Some ''/home/u/ez.yaml'')
       (demo_world\<lparr>stdin := [[]]\<rparr>) =
     (Returned (''empty'', ''/home/u/ez.yaml''),
      demo_world\<lparr>cwd := ''/home/u/empty'', stdin := [],
        trace :=
          [Prompt (Msg ''Configuration file '{}' already exists. Overwrite? (Y/n): ''
                     [PStr ''/home/u/ez.yaml''])]\<rparr>)"
    using empty_answer_affirmative
      [where w = "demo_world\<lparr>stdin := [[]]\<rparr>" and rest = "[]"
        and env_dir = "Some ''empty''" and h = demo_host
        and config_file = "Some ''/home/u/ez.yaml''"]
    by (simp add: sims)
  have c5: "init_env_prepare demo_host (Some ''newproj'') (Some ''/home/u/ez.yaml'')
       (demo_world\<lparr>stdin := [[]]\<rparr>) =
     (Returned (''newproj'', ''/home/u/ez.yaml''),
      demo_world\<lparr>fs := demo_fs(''/home/u/newproj'' \<mapsto> Dir []),
        cwd := ''/home/u/newproj'', stdin := [],
        trace :=
          [Print (Msg ''Directory '{}' does not exist. Creating it...'' [PStr ''newproj'']),
           Prompt (Msg ''Configuration file '{}' already exists. Overwrite? (Y/n): ''
                     [PStr ''/home/u/ez.yaml''])]\<rparr>)"
    using empty_answer_affirmative
      [where w = "demo_world\<lparr>stdin := [[]]\<rparr>" and rest = "[]"
        and env_dir = "Some ''newproj''" and h = demo_host
        and config_file = "Some ''/home/u/ez.yaml''"]
    by (simp add: sims)
  have c6: "declined '' ''"
    using empty_answer_affirmative [where answer = "'' ''"] by (simp add: is_space_def)
  have c7: "init_env_prepare demo_host (Some ''proj'') None (demo_world\<lparr>stdin := ['' '']\<rparr>) =
     (Exited 0,
      demo_world\<lparr>stdin := [],
        trace :=
          [Prompt (Msg ''Directory '{}' is not empty. Are you sure you want to initialize it? (Y/n): ''
                     [PStr ''proj'']),
           Print (Msg ''Initialization aborted.'' [])]\<rparr>)"
    using empty_answer_affirmative
      [where w = "demo_world\<lparr>stdin := ['' '']\<rparr>" and rest = "[]" and answer = "'' ''"
        and env_dir = "Some ''proj''" and h = demo_host and entries = "[''main.py'']"
        and config_file = None] c6
    by (simp add: sims)
  show ?thesis
    using c1 c2 c3 c4 c5 c6 c7 by blast
qed

text \<open>
  A single blank as the answer aborts the initialisation at either prompt, with exit
  code 0.
\<close>

theorem whitespace_answer_declines:
  "init_env demo_host None (Some ''proj'') None None False True (demo_world\<lparr>stdin := ['' '']\<rparr>) =
     (Exited 0,
      demo_world\<lparr>stdin := [],
        trace :=
          [Prompt (Msg ''Directory '{}' is not empty. Are you sure you want to initialize it? (Y/n): ''
                     [PStr ''proj'']),
           Print (Msg ''Initialization aborted.'' [])]\<rparr>)
   \<and> init_env demo_host None None None (Some ''/home/u/ez.yaml'') False True
       (demo_world\<lparr>stdin := ['' '']\<rparr>) =
     (Exited 0,
      demo_world\<lparr>stdin := [],
        trace :=
          [Prompt (Msg ''Configuration file '{}' already exists. Overwrite? (Y/n): ''
                     [PStr ''/home/u/ez.yaml'']),
           Print (Msg ''Initialization aborted due to existing configuration.'' [])]\<rparr>)"
  by (simp add: init_env_def init_env_prepare_def prog_simps Let_def opt_truthy_def opt_val_def
      demo_host_simps demo_world_simps demo_paths demo_fs_def MARKER_def declined_def lower_simps)

section \<open>Resolving the settings\<close>

lemma load_config_cwd: "cwd (snd (load_config h f w)) = cwd w"
  by (auto simp: load_config_def prog_simps split: option.splits node.splits sum.splits)

lemma save_config_returns: "\<exists>w'. save_config h self w = (Returned (), w')"
  by (auto simp: save_config_def prog_simps Let_def
      split: option.splits node.splits sum.splits)

lemma demo_yaml:
  "flat_load ''envDir: /srv/other'' = Inr (PDict [(PStr ''envDir'', PStr ''/srv/other'')])"
  "flat_load full_yaml_text =
     Inr (PDict [(PStr ''envName'', PStr ''old''), (PStr ''pkgManager'', PStr ''poetry'')])"
  "flat_dump
     (PDict
        [(PStr ''envName'', PStr ''.venv''),
         (PStr ''envDir'', PStr ''/home/u/proj''),
         (PStr ''pythonVer'', PStr ''/usr/bin/python3''),
         (PStr ''autoInstall'', PBool True),
         (PStr ''autoUpdate'', PBool True),
         (PStr ''pkgManager'', PStr ''pip'')]) = Inr demo_yaml_text"
  "flat_load demo_yaml_text =
     Inr (PDict
        [(PStr ''envName'', PStr ''.venv''),
         (PStr ''envDir'', PStr ''/home/u/proj''),
         (PStr ''pythonVer'', PStr ''/usr/bin/python3''),
         (PStr ''autoInstall'', PBool True),
         (PStr ''autoUpdate'', PBool True),
         (PStr ''pkgManager'', PStr ''pip'')])"
  by code_simp+

lemma demo_more_paths:
  "posix_abspath ''/home/u'' ''/home/u/full.yaml'' = ''/home/u/full.yaml''"
  "posix_abspath ''/home/u'' ''/home/u'' = ''/home/u''"
  "posix_join ''/home/u'' ''.venv'' = ''/home/u/.venv''"
  "posix_join ''/home/u'' ''old'' = ''/home/u/old''"
  "posix_join ''/home/u'' ''mine'' = ''/home/u/mine''"
  "posix_abspath ''/home/u'' ''/home/u/proj/ezvenv.yaml'' = ''/home/u/proj/ezvenv.yaml''"
  "posix_dirname ''/home/u/proj/ezvenv.yaml'' = ''/home/u/proj''"
  by code_simp+

lemma bind_Returned: "m w = (Returned x, w') \<Longrightarrow> bind m k w = k x w'"
  by (simp add: bind_def)

text \<open>
  Claim C7, as amended. When the settings document loads as a dictionary and the resolved
  environment name is a string, the constructor returns an instance whose settings are
  resolved as follows. Environment name: the explicit argument if it is not empty, else
  the stored \<^verbatim>\<open>envName\<close>, else \<^verbatim>\<open>.venv\<close>. Interpreter: the explicit argument if it is not
  empty, else the stored \<^verbatim>\<open>pythonVer\<close>, else the running interpreter. Environment
  directory: the explicit argument if it is not empty, else the current working directory,
  made absolute; the stored \<^verbatim>\<open>envDir\<close> is not consulted. Package manager: there is no
  constructor argument; the stored \<^verbatim>\<open>pkgManager\<close> unless it is \<^verbatim>\<open>auto\<close> or missing, and then
  the first of \<^verbatim>\<open>poetry\<close> and \<^verbatim>\<open>pipenv\<close> found on the search path, else \<^verbatim>\<open>pip\<close>. In
  particular, with the preference \<^verbatim>\<open>auto\<close> (or none) and both tools absent, it is \<^verbatim>\<open>pip\<close>.
\<close>

theorem settings_resolution:
  assumes load: "load_config h
           (if opt_truthy config_file then opt_val config_file
            else path_join h (CONFIG_DIR h) ''ezvenv.yaml'') w = (Returned (PDict kvs), wl)"
    and name: "(if opt_truthy env_name then PStr (opt_val env_name)
                else case map_of kvs (PStr ''envName'') of Some v \<Rightarrow> v | None \<Rightarrow> PStr ''.venv'')
               = PStr name"
  shows "\<exists>self w'.
      EZVenv_init h config_file env_name env_dir python_ver save_defaults auto_activate w
        = (Returned self, w')
      \<and> envName self = PStr name
      \<and> envDir self = abspath h (cwd w) (if opt_truthy env_dir then opt_val env_dir else cwd w)
      \<and> pythonVer self =
          (if opt_truthy python_ver then PStr (opt_val python_ver)
           else case map_of kvs (PStr ''pythonVer'') of
                  Some v \<Rightarrow> v
                | None \<Rightarrow> PStr (executable h))
      \<and> pkgManager self =
          (let found = (if opt_truthy (which h ''poetry'') then PStr ''poetry''
                        else if opt_truthy (which h ''pipenv'') then PStr ''pipenv''
                        else PStr ''pip'')
           in case map_of kvs (PStr ''pkgManager'') of
                Some v \<Rightarrow> if v \<noteq> PStr ''auto'' then v else found
              | None \<Rightarrow> found)
      \<and> ((map_of kvs (PStr ''pkgManager'') = None
            \<or> map_of kvs (PStr ''pkgManager'') = Some (PStr ''auto''))
           \<and> \<not> opt_truthy (which h ''poetry'') \<and> \<not> opt_truthy (which h ''pipenv'')
           \<longrightarrow> pkgManager self = PStr ''pip'')
      \<and> envPath self = path_join h (envDir self) name"
proof -
  let ?cf = "if opt_truthy config_file then opt_val config_file
             else path_join h (CONFIG_DIR h) ''ezvenv.yaml''"
  let ?dir = "abspath h (cwd w) (if opt_truthy env_dir then opt_val env_dir else cwd w)"
  let ?py = "if opt_truthy python_ver then PStr (opt_val python_ver)
             else case map_of kvs (PStr ''pythonVer'') of
                    Some v \<Rightarrow> v
                  | None \<Rightarrow> PStr (executable h)"
  let ?found = "if opt_truthy (which h ''poetry'') then PStr ''poetry''
                else if opt_truthy (which h ''pipenv'') then PStr ''pipenv''
                else PStr ''pip''"
  let ?pm = "case map_of kvs (PStr ''pkgManager'') of
               Some v \<Rightarrow> if v \<noteq> PStr ''auto'' then v else ?found
             | None \<Rightarrow> ?found"
  let ?self = "\<lparr>configFile = ?cf, config = PDict kvs, envName = PStr name, envDir = ?dir,
                 pythonVer = ?py, envPath = path_join h ?dir name, pkgManager = ?pm,
                 autoInstall = (case map_of kvs (PStr ''autoInstall'') of
                                  Some v \<Rightarrow> v | None \<Rightarrow> PBool True),
                 autoUpdate = (case map_of kvs (PStr ''autoUpdate'') of
                                 Some v \<Rightarrow> v | None \<Rightarrow> PBool True),
                 autoActivate = auto_activate\<rparr>"
  have cwd1: "cwd wl = cwd w"
    using load_config_cwd [of h ?cf w] load by simp
  obtain ws where fin: "(if save_defaults then save_config h ?self else ret ()) wl
                         = (Returned (), ws)"
    using save_config_returns [of h ?self wl] by (cases save_defaults) (auto simp: ret_def)
  have n1: "(if opt_truthy env_name then ret (PStr (opt_val env_name))
             else dict_get (PDict kvs) ''envName'' (PStr ''.venv'')) wl = (Returned (PStr name), wl)"
    using name by (simp add: dict_get_def ret_def split: if_splits)
  have d0: "(if opt_truthy env_dir then ret (opt_val env_dir) else getcwd) wl
              = (Returned (if opt_truthy env_dir then opt_val env_dir else cwd w), wl)"
    using cwd1 by (simp add: ret_def getcwd_def)
  have a1: "os_abspath h (if opt_truthy env_dir then opt_val env_dir else cwd w) wl
              = (Returned ?dir, wl)"
    using cwd1 by (simp add: os_abspath_def)
  have p1: "(if opt_truthy python_ver then ret (PStr (opt_val python_ver))
             else dict_get (PDict kvs) ''pythonVer'' (PStr (executable h))) wl = (Returned ?py, wl)"
    by (simp add: dict_get_def ret_def)
  have j1: "join_val h ?dir (PStr name) wl = (Returned (path_join h ?dir name), wl)"
    by (simp add: join_val_def ret_def)
  have m1: "detect_pkg_manager h (PDict kvs) wl = (Returned ?pm, wl)"
    by (simp add: detect_pkg_manager_def dict_get_def bind_def ret_def split: option.splits)
  have ai: "dict_get (PDict kvs) ''autoInstall'' (PBool True) wl
              = (Returned (case map_of kvs (PStr ''autoInstall'') of
                             Some v \<Rightarrow> v | None \<Rightarrow> PBool True), wl)"
    by (simp add: dict_get_def ret_def)
  have au: "dict_get (PDict kvs) ''autoUpdate'' (PBool True) wl
              = (Returned (case map_of kvs (PStr ''autoUpdate'') of
                             Some v \<Rightarrow> v | None \<Rightarrow> PBool True), wl)"
    by (simp add: dict_get_def ret_def)
  have "EZVenv_init h config_file env_name env_dir python_ver save_defaults auto_activate w
          = (Returned ?self, ws)"
    unfolding EZVenv_init_def Let_def
    apply (subst bind_Returned, rule load)
    apply (subst bind_Returned, rule n1)
    apply (subst bind_Returned, rule d0)
    apply (subst bind_Returned, rule a1)
    apply (subst bind_Returned, rule p1)
    apply (subst bind_Returned, rule j1)
    apply (subst bind_Returned, rule m1)
    apply (subst bind_Returned, rule ai)
    apply (subst bind_Returned, rule au)
    apply (subst bind_Returned, rule fin)
    apply (simp add: ret_def)
    done
  then show ?thesis
    by (intro exI [of _ ?self] exI [of _ ws]) (auto simp: Let_def)
qed

lemma demo_load:
  "load_config demo_host ''/home/u/ez.yaml'' demo_world =
     (Returned (PDict [(PStr ''envDir'', PStr ''/srv/other'')]),
      demo_world\<lparr>trace :=
        [Parse Yaml, Log INFO (Msg ''Configuration loaded from %s'' [PStr ''/home/u/ez.yaml''])]\<rparr>)"
  "load_config demo_host ''/home/u/full.yaml'' demo_world =
     (Returned (PDict [(PStr ''envName'', PStr ''old''), (PStr ''pkgManager'', PStr ''poetry'')]),
      demo_world\<lparr>trace :=
        [Parse Yaml, Log INFO (Msg ''Configuration loaded from %s'' [PStr ''/home/u/full.yaml''])]\<rparr>)"
  by (simp_all add: load_config_def prog_simps demo_host_simps demo_world_simps demo_paths
      demo_more_paths demo_fs_def demo_yaml endswith_def truthy_def)

text \<open>
  The example host has neither tool. First a document without name, interpreter or
  package manager; then one that stores a name and a package manager; then the same
  document with explicit arguments.
\<close>

theorem settings_resolution_witness:
  "(\<exists>self w'.
      EZVenv_init demo_host (Some ''/home/u/ez.yaml'') None None None False True demo_world
        = (Returned self, w')
      \<and> envName self = PStr ''.venv'' \<and> envDir self = ''/home/u''
      \<and> pythonVer self = PStr ''/usr/bin/python3'' \<and> pkgManager self = PStr ''pip''
      \<and> envPath self = ''/home/u/.venv'')
   \<and> (\<exists>self w'.
      EZVenv_init demo_host (Some ''/home/u/full.yaml'') None None None False True demo_world
        = (Returned self, w')
      \<and> envName self = PStr ''old'' \<and> envDir self = ''/home/u''
      \<and> pythonVer self = PStr ''/usr/bin/python3'' \<and> pkgManager self = PStr ''poetry''
      \<and> envPath self = ''/home/u/old'')
   \<and> (\<exists>self w'.
      EZVenv_init demo_host (Some ''/home/u/full.yaml'') (Some ''mine'') (Some ''proj'')
          (Some ''/opt/py/bin/python'') False True demo_world
        = (Returned self, w')
      \<and> envName self = PStr ''mine'' \<and> envDir self = ''/home/u/proj''
      \<and> pythonVer self = PStr ''/opt/py/bin/python'' \<and> pkgManager self = PStr ''poetry'')"
  using settings_resolution
      [where h = demo_host and config_file = "Some ''/home/u/ez.yaml''" and w = demo_world
        and kvs = "[(PStr ''envDir'', PStr ''/srv/other'')]"
        and wl = "demo_world\<lparr>trace :=
          [Parse Yaml, Log INFO (Msg ''Configuration loaded from %s'' [PStr ''/home/u/ez.yaml''])]\<rparr>"
        and env_name = None and name = "''.venv''" and env_dir = None and python_ver = None
        and save_defaults = False and auto_activate = True]
    settings_resolution
      [where h = demo_host and config_file = "Some ''/home/u/full.yaml''" and w = demo_world
        and kvs = "[(PStr ''envName'', PStr ''old''), (PStr ''pkgManager'', PStr ''poetry'')]"
        and wl = "demo_world\<lparr>trace :=
          [Parse Yaml, Log INFO (Msg ''Configuration loaded from %s'' [PStr ''/home/u/full.yaml''])]\<rparr>"
        and env_name = None and name = "''old''" and env_dir = None and python_ver = None
        and save_defaults = False and auto_activate = True]
    settings_resolution
      [where h = demo_host and config_file = "Some ''/home/u/full.yaml''" and w = demo_world
        and kvs = "[(PStr ''envName'', PStr ''old''), (PStr ''pkgManager'', PStr ''poetry'')]"
        and wl = "demo_world\<lparr>trace :=
          [Parse Yaml, Log INFO (Msg ''Configuration loaded from %s'' [PStr ''/home/u/full.yaml''])]\<rparr>"
        and env_name = "Some ''mine''" and name = "''mine''" and env_dir = "Some ''proj''"
        and python_ver = "Some ''/opt/py/bin/python''"
        and save_defaults = False and auto_activate = True]
    demo_load
  by (auto simp: opt_truthy_def opt_val_def demo_host_simps demo_world_simps demo_paths
      demo_more_paths)

text \<open>
  The settings document of the example stores \<^verbatim>\<open>envDir: /srv/other\<close>. Without an explicit
  directory the constructor takes the current working directory \<^verbatim>\<open>/home/u\<close>, not the
  stored value.
\<close>

theorem stored_env_dir_not_used:
  "fst (EZVenv_init demo_host (Some ''/home/u/ez.yaml'') None None None False True demo_world) =
     Returned
       \<lparr>configFile = ''/home/u/ez.yaml'',
        config = PDict [(PStr ''envDir'', PStr ''/srv/other'')],
        envName = PStr ''.venv'',
        envDir = ''/home/u'',
        pythonVer = PStr ''/usr/bin/python3'',
        envPath = ''/home/u/.venv'',
        pkgManager = PStr ''pip'',
        autoInstall = PBool True,
        autoUpdate = PBool True,
        autoActivate = True\<rparr>"
  by (simp add: EZVenv_init_def Let_def bind_def ret_def getcwd_def os_abspath_def dict_get_def
      join_val_def detect_pkg_manager_def demo_load opt_truthy_def opt_val_def demo_host_simps
      demo_world_simps demo_more_paths)

section \<open>Saving and loading again\<close>

lemma endswith_hd:
  "endswith f ''.json'' \<Longrightarrow> hd (rev f) = CHR ''n''"
  "endswith f ''.yaml'' \<Longrightarrow> hd (rev f) = CHR ''l''"
  "endswith f ''.yml'' \<Longrightarrow> hd (rev f) = CHR ''l''"
  by (cases "rev f"; simp add: endswith_def)+

lemma yaml_not_json:
  assumes "endswith f ''.yaml'' \<or> endswith f ''.yml''"
  shows "\<not> endswith f ''.json''"
  using assms endswith_hd [of f] by auto

lemma save_config_written:
  assumes wr: "fst (open_write h (configFile self) w) = Returned ()"
    and rd: "\<forall>r wr c. fs w (abspath h (cwd w) (configFile self)) = Some (File r wr c) \<longrightarrow> r"
    and dump: "yaml_dump h (PDict (config_data self)) = Inr doc"
  shows "save_config h self w =
           (Returned (),
            w\<lparr>fs := (fs w)(abspath h (cwd w) (configFile self) \<mapsto> File True True doc),
              trace := trace w @
                [Log INFO (Msg ''Configuration saved to %s'' [PStr (configFile self)])]\<rparr>)"
  using assms
  by (auto simp: save_config_def prog_simps Let_def split: option.splits node.splits if_splits)

text \<open>
  Claim C4, as amended. Let the name of the settings document end in \<^verbatim>\<open>.yaml\<close> or
  \<^verbatim>\<open>.yml\<close>, let the document be writable (and, if it exists already, readable), and let
  the YAML library read back from the emitted text a dictionary with the same entries as
  the one it was given. Then \<^verbatim>\<open>save_config\<close> followed by \<^verbatim>\<open>load_config\<close> yields a fragment
  that agrees with the instance on every persisted field: \<^verbatim>\<open>envName\<close>, \<^verbatim>\<open>envDir\<close>,
  \<^verbatim>\<open>pythonVer\<close>, \<^verbatim>\<open>autoInstall\<close>, \<^verbatim>\<open>autoUpdate\<close> and \<^verbatim>\<open>pkgManager\<close>. The attributes that are
  not persisted (\<^verbatim>\<open>configFile\<close>, \<^verbatim>\<open>config\<close>, \<^verbatim>\<open>envPath\<close>, \<^verbatim>\<open>autoActivate\<close>) do not
  take part.
\<close>

theorem config_round_trip:
  assumes ext: "endswith (configFile self) ''.yaml'' \<or> endswith (configFile self) ''.yml''"
    and wr: "fst (open_write h (configFile self) w) = Returned ()"
    and rd: "\<forall>r wr c. fs w (abspath h (cwd w) (configFile self)) = Some (File r wr c) \<longrightarrow> r"
    and dump: "yaml_dump h (PDict (config_data self)) = Inr doc"
    and load: "yaml_safe_load h doc = Inr (PDict kvs)"
    and same: "map_of kvs = map_of (config_data self)"
  shows "(let saved =
            w\<lparr>fs := (fs w)(abspath h (cwd w) (configFile self) \<mapsto> File True True doc),
              trace := trace w @
                [Log INFO (Msg ''Configuration saved to %s'' [PStr (configFile self)])]\<rparr>
          in save_config h self w = (Returned (), saved)
             \<and> load_config h (configFile self) saved =
                 (Returned (PDict kvs),
                  saved\<lparr>trace := trace saved @
                    [Parse Yaml,
                     Log INFO (Msg ''Configuration loaded from %s'' [PStr (configFile self)])]\<rparr>))
         \<and> map_of kvs (PStr ''envName'') = Some (envName self)
         \<and> map_of kvs (PStr ''envDir'') = Some (PStr (envDir self))
         \<and> map_of kvs (PStr ''pythonVer'') = Some (pythonVer self)
         \<and> map_of kvs (PStr ''autoInstall'') = Some (autoInstall self)
         \<and> map_of kvs (PStr ''autoUpdate'') = Some (autoUpdate self)
         \<and> map_of kvs (PStr ''pkgManager'') = Some (pkgManager self)"
proof -
  let ?saved = "w\<lparr>fs := (fs w)(abspath h (cwd w) (configFile self) \<mapsto> File True True doc),
              trace := trace w @
                [Log INFO (Msg ''Configuration saved to %s'' [PStr (configFile self)])]\<rparr>"
  have s: "save_config h self w = (Returned (), ?saved)"
    by (rule save_config_written [OF wr rd dump])
  have nj: "\<not> endswith (configFile self) ''.json''"
    by (rule yaml_not_json [OF ext])
  have name: "map_of kvs (PStr ''envName'') = Some (envName self)"
    by (simp add: same config_data_def)
  then have ne: "kvs \<noteq> []" by auto
  have l: "load_config h (configFile self) ?saved =
             (Returned (PDict kvs),
              ?saved\<lparr>trace := trace ?saved @
                [Parse Yaml,
                 Log INFO (Msg ''Configuration loaded from %s'' [PStr (configFile self)])]\<rparr>)"
    using ext nj load ne by (simp add: load_config_def prog_simps truthy_def)
  show ?thesis
    using s l by (simp add: Let_def same config_data_def)
qed

lemma demo_config_data:
  "config_data (demo_self cf) =
     [(PStr ''envName'', PStr ''.venv''),
      (PStr ''envDir'', PStr ''/home/u/proj''),
      (PStr ''pythonVer'', PStr ''/usr/bin/python3''),
      (PStr ''autoInstall'', PBool True),
      (PStr ''autoUpdate'', PBool True),
      (PStr ''pkgManager'', PStr ''pip'')]"
  by (simp add: config_data_def demo_self_def)

lemma demo_self_configFile: "configFile (demo_self cf) = cf"
  by (simp add: demo_self_def)

text \<open>A new settings document \<^verbatim>\<open>ezvenv.yaml\<close> in the project of the example world.\<close>

theorem config_round_trip_witness:
  "endswith ''/home/u/proj/ezvenv.yaml'' ''.yaml''
   \<and> fst (open_write demo_host ''/home/u/proj/ezvenv.yaml'' demo_world) = Returned ()
   \<and> yaml_dump demo_host (PDict (config_data (demo_self ''/home/u/proj/ezvenv.yaml'')))
       = Inr demo_yaml_text
   \<and> fst (save_config demo_host (demo_self ''/home/u/proj/ezvenv.yaml'') demo_world) = Returned ()
   \<and> fst (load_config demo_host ''/home/u/proj/ezvenv.yaml''
            (snd (save_config demo_host (demo_self ''/home/u/proj/ezvenv.yaml'') demo_world)))
       = Returned (PDict (config_data (demo_self ''/home/u/proj/ezvenv.yaml'')))"
proof -
  let ?f = "''/home/u/proj/ezvenv.yaml''"
  have e: "endswith (configFile (demo_self ?f)) ''.yaml'' \<or> endswith (configFile (demo_self ?f)) ''.yml''"
    by (simp add: demo_self_configFile endswith_def)
  have o: "fst (open_write demo_host (configFile (demo_self ?f)) demo_world) = Returned ()"
    by (simp add: demo_self_configFile open_write_def demo_host_simps demo_world_simps
        demo_more_paths demo_fs_def)
  have r: "\<forall>r wr c. fs demo_world
             (abspath demo_host (cwd demo_world) (configFile (demo_self ?f))) = Some (File r wr c)
             \<longrightarrow> r"
    by (simp add: demo_self_configFile demo_host_simps demo_world_simps demo_more_paths
        demo_fs_def)
  have d: "yaml_dump demo_host (PDict (config_data (demo_self ?f))) = Inr demo_yaml_text"
    by (simp add: demo_host_simps demo_config_data demo_yaml)
  have l: "yaml_safe_load demo_host demo_yaml_text = Inr (PDict (config_data (demo_self ?f)))"
    by (simp add: demo_host_simps demo_config_data demo_yaml)
  have "save_config demo_host (demo_self ?f) demo_world =
          (Returned (),
           demo_world\<lparr>fs := (fs demo_world)
               (abspath demo_host (cwd demo_world) (configFile (demo_self ?f))
                  \<mapsto> File True True demo_yaml_text),
             trace := trace demo_world @
               [Log INFO (Msg ''Configuration saved to %s'' [PStr (configFile (demo_self ?f))])]\<rparr>)
        \<and> fst (load_config demo_host (configFile (demo_self ?f))
            (demo_world\<lparr>fs := (fs demo_world)
               (abspath demo_host (cwd demo_world) (configFile (demo_self ?f))
                  \<mapsto> File True True demo_yaml_text),
             trace := trace demo_world @
               [Log INFO (Msg ''Configuration saved to %s'' [PStr (configFile (demo_self ?f))])]\<rparr>))
           = Returned (PDict (config_data (demo_self ?f)))"
    using config_round_trip [OF e o r d l refl] unfolding Let_def by simp
  then show ?thesis
    using o d by (simp add: demo_self_configFile endswith_def)
qed

text \<open>
  Under a name with another extension the settings are written as YAML all the same, but
  \<^verbatim>\<open>load_config\<close> does not parse such a file: after saving the example instance to
  \<^verbatim>\<open>ezvenv.cfg\<close>, the document holds \<^verbatim>\<open>envName: .venv\<close> and the rest, and loading it
  yields the empty fragment.
\<close>

theorem other_extension_not_read_back:
  "fst (save_config demo_host (demo_self ''/home/u/ezvenv.cfg'') demo_world) = Returned ()
   \<and> fs (snd (save_config demo_host (demo_self ''/home/u/ezvenv.cfg'') demo_world))
        ''/home/u/ezvenv.cfg'' = Some (File True True demo_yaml_text)
   \<and> map_of (config_data (demo_self ''/home/u/ezvenv.cfg'')) (PStr ''envName'')
       = Some (PStr ''.venv'')
   \<and> fst (load_config demo_host ''/home/u/ezvenv.cfg''
            (snd (save_config demo_host (demo_self ''/home/u/ezvenv.cfg'') demo_world)))
       = Returned (PDict [])"
  by (simp add: save_config_def load_config_def prog_simps Let_def demo_config_data demo_yaml
      demo_self_configFile demo_host_simps demo_world_simps demo_paths demo_fs_def
      endswith_def truthy_def)

end
